theory Spec2Isabelle
  imports Main "HOL-Library.Word"
begin

section \<open>JavaScript strings\<close>

text \<open>
  A JavaScript string is a finite sequence of 16-bit UTF-16 code units; \<open>length\<close>,
  indexing and regular expressions without the \<open>u\<close> flag all count code units.
  String literals of the source are written with \<open>js\<close>.
\<close>

type_synonym cu = "16 word"
type_synonym jsstring = "cu list"

definition cu_of :: "char \<Rightarrow> cu" where
  "cu_of ch = of_char ch"

definition js :: "string \<Rightarrow> jsstring" where
  "js s = map cu_of s"

text \<open>\<open>s[i]\<close>: the one-unit string at index \<open>i\<close>, or \<open>undefined\<close> (here \<open>None\<close>) out of range.\<close>

definition char_at :: "jsstring \<Rightarrow> nat \<Rightarrow> cu option" where
  "char_at s i = (if i < length s then Some (s ! i) else None)"

text \<open>
  The regular-expression class \<open>\s\<close>: the WhiteSpace and LineTerminator code points of
  ECMAScript (TAB, LF, VT, FF, CR, SP, NBSP, U+1680, U+2000..U+200A, U+2028, U+2029,
  U+202F, U+205F, U+3000, U+FEFF). \<open>String.prototype.trim\<close> strips the same set.
\<close>

definition is_white_space :: "cu \<Rightarrow> bool" where
  "is_white_space c =
     (let n = unat c in
      (0x09 \<le> n \<and> n \<le> 0x0D) \<or> n = 0x20 \<or> n = 0xA0 \<or> n = 0x1680 \<or>
      (0x2000 \<le> n \<and> n \<le> 0x200A) \<or> n = 0x2028 \<or> n = 0x2029 \<or> n = 0x202F \<or>
      n = 0x205F \<or> n = 0x3000 \<or> n = 0xFEFF)"

text \<open>The class \<open>[\s-]\<close> of the normalizer's regular expression.\<close>

definition is_separator :: "cu \<Rightarrow> bool" where
  "is_separator c = (is_white_space c \<or> unat c = 0x2D)"

text \<open>
  \<open>input.replace(/[\s-]+/g, "")\<close>: every maximal run of class members is replaced by
  the empty string, so exactly the class members are deleted.
\<close>

definition replace_separators :: "jsstring \<Rightarrow> jsstring" where
  "replace_separators s = filter (\<lambda>c. \<not> is_separator c) s"

definition trim :: "jsstring \<Rightarrow> jsstring" where
  "trim s = rev (dropWhile is_white_space (rev (dropWhile is_white_space s)))"

subsection \<open>Code points\<close>

definition is_leading_surrogate :: "cu \<Rightarrow> bool" where
  "is_leading_surrogate c = (0xD800 \<le> unat c \<and> unat c \<le> 0xDBFF)"

definition is_trailing_surrogate :: "cu \<Rightarrow> bool" where
  "is_trailing_surrogate c = (0xDC00 \<le> unat c \<and> unat c \<le> 0xDFFF)"

definition UTF16SurrogatePairToCodePoint :: "cu \<Rightarrow> cu \<Rightarrow> nat" where
  "UTF16SurrogatePairToCodePoint lead trail =
     (unat lead - 0xD800) * 0x400 + (unat trail - 0xDC00) + 0x10000"

text \<open>
  \<open>StringToCodePoints\<close> of ECMA-262: a leading surrogate directly followed by a trailing
  one is one code point, every other code unit (also an unpaired surrogate) is its own.
\<close>

fun StringToCodePoints :: "jsstring \<Rightarrow> nat list" where
  "StringToCodePoints [] = []"
| "StringToCodePoints [c] = [unat c]"
| "StringToCodePoints (c # d # s) =
     (if is_leading_surrogate c \<and> is_trailing_surrogate d
      then UTF16SurrogatePairToCodePoint c d # StringToCodePoints s
      else unat c # StringToCodePoints (d # s))"

definition UTF16EncodeCodePoint :: "nat \<Rightarrow> jsstring" where
  "UTF16EncodeCodePoint cp =
     (if cp \<le> 0xFFFF then [of_nat cp]
      else [of_nat ((cp - 0x10000) div 0x400 + 0xD800),
            of_nat ((cp - 0x10000) mod 0x400 + 0xDC00)])"

definition CodePointsToString :: "nat list \<Rightarrow> jsstring" where
  "CodePointsToString cps = concat (map UTF16EncodeCodePoint cps)"

subsection \<open>The uppercase mapping\<close>

text \<open>
  \<open>String.prototype.toUpperCase\<close> maps every code point through the full uppercase
  mapping of the Unicode character database (the simple mappings of UnicodeData.txt and
  the unconditional ones of SpecialCasing.txt), independent of locale and context.
  The functions below are that mapping for the code points beyond ASCII that it
  changes (Unicode 14.0), one function per block of 256 code points.
\<close>

definition upper_page_0000 :: "nat \<Rightarrow> nat list option" where
  "upper_page_0000 c =
    (if c = 0xB5 then Some [0x39C] else if c = 0xDF then Some [0x53, 0x53] else
     if c = 0xE0 then Some [0xC0] else if c = 0xE1 then Some [0xC1] else
     if c = 0xE2 then Some [0xC2] else if c = 0xE3 then Some [0xC3] else
     if c = 0xE4 then Some [0xC4] else if c = 0xE5 then Some [0xC5] else
     if c = 0xE6 then Some [0xC6] else if c = 0xE7 then Some [0xC7] else
     if c = 0xE8 then Some [0xC8] else if c = 0xE9 then Some [0xC9] else
     if c = 0xEA then Some [0xCA] else if c = 0xEB then Some [0xCB] else
     if c = 0xEC then Some [0xCC] else if c = 0xED then Some [0xCD] else
     if c = 0xEE then Some [0xCE] else if c = 0xEF then Some [0xCF] else
     if c = 0xF0 then Some [0xD0] else if c = 0xF1 then Some [0xD1] else
     if c = 0xF2 then Some [0xD2] else if c = 0xF3 then Some [0xD3] else
     if c = 0xF4 then Some [0xD4] else if c = 0xF5 then Some [0xD5] else
     if c = 0xF6 then Some [0xD6] else if c = 0xF8 then Some [0xD8] else
     if c = 0xF9 then Some [0xD9] else if c = 0xFA then Some [0xDA] else
     if c = 0xFB then Some [0xDB] else if c = 0xFC then Some [0xDC] else
     if c = 0xFD then Some [0xDD] else if c = 0xFE then Some [0xDE] else
     if c = 0xFF then Some [0x178] else None)"

definition upper_page_0100 :: "nat \<Rightarrow> nat list option" where
  "upper_page_0100 c =
    (if c = 0x101 then Some [0x100] else if c = 0x103 then Some [0x102] else
     if c = 0x105 then Some [0x104] else if c = 0x107 then Some [0x106] else
     if c = 0x109 then Some [0x108] else if c = 0x10B then Some [0x10A] else
     if c = 0x10D then Some [0x10C] else if c = 0x10F then Some [0x10E] else
     if c = 0x111 then Some [0x110] else if c = 0x113 then Some [0x112] else
     if c = 0x115 then Some [0x114] else if c = 0x117 then Some [0x116] else
     if c = 0x119 then Some [0x118] else if c = 0x11B then Some [0x11A] else
     if c = 0x11D then Some [0x11C] else if c = 0x11F then Some [0x11E] else
     if c = 0x121 then Some [0x120] else if c = 0x123 then Some [0x122] else
     if c = 0x125 then Some [0x124] else if c = 0x127 then Some [0x126] else
     if c = 0x129 then Some [0x128] else if c = 0x12B then Some [0x12A] else
     if c = 0x12D then Some [0x12C] else if c = 0x12F then Some [0x12E] else
     if c = 0x131 then Some [0x49] else if c = 0x133 then Some [0x132] else
     if c = 0x135 then Some [0x134] else if c = 0x137 then Some [0x136] else
     if c = 0x13A then Some [0x139] else if c = 0x13C then Some [0x13B] else
     if c = 0x13E then Some [0x13D] else if c = 0x140 then Some [0x13F] else
     if c = 0x142 then Some [0x141] else if c = 0x144 then Some [0x143] else
     if c = 0x146 then Some [0x145] else if c = 0x148 then Some [0x147] else
     if c = 0x149 then Some [0x2BC, 0x4E] else if c = 0x14B then Some [0x14A] else
     if c = 0x14D then Some [0x14C] else if c = 0x14F then Some [0x14E] else
     if c = 0x151 then Some [0x150] else if c = 0x153 then Some [0x152] else
     if c = 0x155 then Some [0x154] else if c = 0x157 then Some [0x156] else
     if c = 0x159 then Some [0x158] else if c = 0x15B then Some [0x15A] else
     if c = 0x15D then Some [0x15C] else if c = 0x15F then Some [0x15E] else
     if c = 0x161 then Some [0x160] else if c = 0x163 then Some [0x162] else
     if c = 0x165 then Some [0x164] else if c = 0x167 then Some [0x166] else
     if c = 0x169 then Some [0x168] else if c = 0x16B then Some [0x16A] else
     if c = 0x16D then Some [0x16C] else if c = 0x16F then Some [0x16E] else
     if c = 0x171 then Some [0x170] else if c = 0x173 then Some [0x172] else
     if c = 0x175 then Some [0x174] else if c = 0x177 then Some [0x176] else
     if c = 0x17A then Some [0x179] else if c = 0x17C then Some [0x17B] else
     if c = 0x17E then Some [0x17D] else if c = 0x17F then Some [0x53] else
     if c = 0x180 then Some [0x243] else if c = 0x183 then Some [0x182] else
     if c = 0x185 then Some [0x184] else if c = 0x188 then Some [0x187] else
     if c = 0x18C then Some [0x18B] else if c = 0x192 then Some [0x191] else
     if c = 0x195 then Some [0x1F6] else if c = 0x199 then Some [0x198] else
     if c = 0x19A then Some [0x23D] else if c = 0x19E then Some [0x220] else
     if c = 0x1A1 then Some [0x1A0] else if c = 0x1A3 then Some [0x1A2] else
     if c = 0x1A5 then Some [0x1A4] else if c = 0x1A8 then Some [0x1A7] else
     if c = 0x1AD then Some [0x1AC] else if c = 0x1B0 then Some [0x1AF] else
     if c = 0x1B4 then Some [0x1B3] else if c = 0x1B6 then Some [0x1B5] else
     if c = 0x1B9 then Some [0x1B8] else if c = 0x1BD then Some [0x1BC] else
     if c = 0x1BF then Some [0x1F7] else if c = 0x1C5 then Some [0x1C4] else
     if c = 0x1C6 then Some [0x1C4] else if c = 0x1C8 then Some [0x1C7] else
     if c = 0x1C9 then Some [0x1C7] else if c = 0x1CB then Some [0x1CA] else
     if c = 0x1CC then Some [0x1CA] else if c = 0x1CE then Some [0x1CD] else
     if c = 0x1D0 then Some [0x1CF] else if c = 0x1D2 then Some [0x1D1] else
     if c = 0x1D4 then Some [0x1D3] else if c = 0x1D6 then Some [0x1D5] else
     if c = 0x1D8 then Some [0x1D7] else if c = 0x1DA then Some [0x1D9] else
     if c = 0x1DC then Some [0x1DB] else if c = 0x1DD then Some [0x18E] else
     if c = 0x1DF then Some [0x1DE] else if c = 0x1E1 then Some [0x1E0] else
     if c = 0x1E3 then Some [0x1E2] else if c = 0x1E5 then Some [0x1E4] else
     if c = 0x1E7 then Some [0x1E6] else if c = 0x1E9 then Some [0x1E8] else
     if c = 0x1EB then Some [0x1EA] else if c = 0x1ED then Some [0x1EC] else
     if c = 0x1EF then Some [0x1EE] else if c = 0x1F0 then Some [0x4A, 0x30C] else
     if c = 0x1F2 then Some [0x1F1] else if c = 0x1F3 then Some [0x1F1] else
     if c = 0x1F5 then Some [0x1F4] else if c = 0x1F9 then Some [0x1F8] else
     if c = 0x1FB then Some [0x1FA] else if c = 0x1FD then Some [0x1FC] else
     if c = 0x1FF then Some [0x1FE] else None)"

definition upper_page_0200 :: "nat \<Rightarrow> nat list option" where
  "upper_page_0200 c =
    (if c = 0x201 then Some [0x200] else if c = 0x203 then Some [0x202] else
     if c = 0x205 then Some [0x204] else if c = 0x207 then Some [0x206] else
     if c = 0x209 then Some [0x208] else if c = 0x20B then Some [0x20A] else
     if c = 0x20D then Some [0x20C] else if c = 0x20F then Some [0x20E] else
     if c = 0x211 then Some [0x210] else if c = 0x213 then Some [0x212] else
     if c = 0x215 then Some [0x214] else if c = 0x217 then Some [0x216] else
     if c = 0x219 then Some [0x218] else if c = 0x21B then Some [0x21A] else
     if c = 0x21D then Some [0x21C] else if c = 0x21F then Some [0x21E] else
     if c = 0x223 then Some [0x222] else if c = 0x225 then Some [0x224] else
     if c = 0x227 then Some [0x226] else if c = 0x229 then Some [0x228] else
     if c = 0x22B then Some [0x22A] else if c = 0x22D then Some [0x22C] else
     if c = 0x22F then Some [0x22E] else if c = 0x231 then Some [0x230] else
     if c = 0x233 then Some [0x232] else if c = 0x23C then Some [0x23B] else
     if c = 0x23F then Some [0x2C7E] else if c = 0x240 then Some [0x2C7F] else
     if c = 0x242 then Some [0x241] else if c = 0x247 then Some [0x246] else
     if c = 0x249 then Some [0x248] else if c = 0x24B then Some [0x24A] else
     if c = 0x24D then Some [0x24C] else if c = 0x24F then Some [0x24E] else
     if c = 0x250 then Some [0x2C6F] else if c = 0x251 then Some [0x2C6D] else
     if c = 0x252 then Some [0x2C70] else if c = 0x253 then Some [0x181] else
     if c = 0x254 then Some [0x186] else if c = 0x256 then Some [0x189] else
     if c = 0x257 then Some [0x18A] else if c = 0x259 then Some [0x18F] else
     if c = 0x25B then Some [0x190] else if c = 0x25C then Some [0xA7AB] else
     if c = 0x260 then Some [0x193] else if c = 0x261 then Some [0xA7AC] else
     if c = 0x263 then Some [0x194] else if c = 0x265 then Some [0xA78D] else
     if c = 0x266 then Some [0xA7AA] else if c = 0x268 then Some [0x197] else
     if c = 0x269 then Some [0x196] else if c = 0x26A then Some [0xA7AE] else
     if c = 0x26B then Some [0x2C62] else if c = 0x26C then Some [0xA7AD] else
     if c = 0x26F then Some [0x19C] else if c = 0x271 then Some [0x2C6E] else
     if c = 0x272 then Some [0x19D] else if c = 0x275 then Some [0x19F] else
     if c = 0x27D then Some [0x2C64] else if c = 0x280 then Some [0x1A6] else
     if c = 0x282 then Some [0xA7C5] else if c = 0x283 then Some [0x1A9] else
     if c = 0x287 then Some [0xA7B1] else if c = 0x288 then Some [0x1AE] else
     if c = 0x289 then Some [0x244] else if c = 0x28A then Some [0x1B1] else
     if c = 0x28B then Some [0x1B2] else if c = 0x28C then Some [0x245] else
     if c = 0x292 then Some [0x1B7] else if c = 0x29D then Some [0xA7B2] else
     if c = 0x29E then Some [0xA7B0] else None)"

definition upper_page_0300 :: "nat \<Rightarrow> nat list option" where
  "upper_page_0300 c =
    (if c = 0x345 then Some [0x399] else if c = 0x371 then Some [0x370] else
     if c = 0x373 then Some [0x372] else if c = 0x377 then Some [0x376] else
     if c = 0x37B then Some [0x3FD] else if c = 0x37C then Some [0x3FE] else
     if c = 0x37D then Some [0x3FF] else if c = 0x390 then Some [0x399, 0x308, 0x301] else
     if c = 0x3AC then Some [0x386] else if c = 0x3AD then Some [0x388] else
     if c = 0x3AE then Some [0x389] else if c = 0x3AF then Some [0x38A] else
     if c = 0x3B0 then Some [0x3A5, 0x308, 0x301] else if c = 0x3B1 then Some [0x391] else
     if c = 0x3B2 then Some [0x392] else if c = 0x3B3 then Some [0x393] else
     if c = 0x3B4 then Some [0x394] else if c = 0x3B5 then Some [0x395] else
     if c = 0x3B6 then Some [0x396] else if c = 0x3B7 then Some [0x397] else
     if c = 0x3B8 then Some [0x398] else if c = 0x3B9 then Some [0x399] else
     if c = 0x3BA then Some [0x39A] else if c = 0x3BB then Some [0x39B] else
     if c = 0x3BC then Some [0x39C] else if c = 0x3BD then Some [0x39D] else
     if c = 0x3BE then Some [0x39E] else if c = 0x3BF then Some [0x39F] else
     if c = 0x3C0 then Some [0x3A0] else if c = 0x3C1 then Some [0x3A1] else
     if c = 0x3C2 then Some [0x3A3] else if c = 0x3C3 then Some [0x3A3] else
     if c = 0x3C4 then Some [0x3A4] else if c = 0x3C5 then Some [0x3A5] else
     if c = 0x3C6 then Some [0x3A6] else if c = 0x3C7 then Some [0x3A7] else
     if c = 0x3C8 then Some [0x3A8] else if c = 0x3C9 then Some [0x3A9] else
     if c = 0x3CA then Some [0x3AA] else if c = 0x3CB then Some [0x3AB] else
     if c = 0x3CC then Some [0x38C] else if c = 0x3CD then Some [0x38E] else
     if c = 0x3CE then Some [0x38F] else if c = 0x3D0 then Some [0x392] else
     if c = 0x3D1 then Some [0x398] else if c = 0x3D5 then Some [0x3A6] else
     if c = 0x3D6 then Some [0x3A0] else if c = 0x3D7 then Some [0x3CF] else
     if c = 0x3D9 then Some [0x3D8] else if c = 0x3DB then Some [0x3DA] else
     if c = 0x3DD then Some [0x3DC] else if c = 0x3DF then Some [0x3DE] else
     if c = 0x3E1 then Some [0x3E0] else if c = 0x3E3 then Some [0x3E2] else
     if c = 0x3E5 then Some [0x3E4] else if c = 0x3E7 then Some [0x3E6] else
     if c = 0x3E9 then Some [0x3E8] else if c = 0x3EB then Some [0x3EA] else
     if c = 0x3ED then Some [0x3EC] else if c = 0x3EF then Some [0x3EE] else
     if c = 0x3F0 then Some [0x39A] else if c = 0x3F1 then Some [0x3A1] else
     if c = 0x3F2 then Some [0x3F9] else if c = 0x3F3 then Some [0x37F] else
     if c = 0x3F5 then Some [0x395] else if c = 0x3F8 then Some [0x3F7] else
     if c = 0x3FB then Some [0x3FA] else None)"

definition upper_page_0400 :: "nat \<Rightarrow> nat list option" where
  "upper_page_0400 c =
    (if c = 0x430 then Some [0x410] else if c = 0x431 then Some [0x411] else
     if c = 0x432 then Some [0x412] else if c = 0x433 then Some [0x413] else
     if c = 0x434 then Some [0x414] else if c = 0x435 then Some [0x415] else
     if c = 0x436 then Some [0x416] else if c = 0x437 then Some [0x417] else
     if c = 0x438 then Some [0x418] else if c = 0x439 then Some [0x419] else
     if c = 0x43A then Some [0x41A] else if c = 0x43B then Some [0x41B] else
     if c = 0x43C then Some [0x41C] else if c = 0x43D then Some [0x41D] else
     if c = 0x43E then Some [0x41E] else if c = 0x43F then Some [0x41F] else
     if c = 0x440 then Some [0x420] else if c = 0x441 then Some [0x421] else
     if c = 0x442 then Some [0x422] else if c = 0x443 then Some [0x423] else
     if c = 0x444 then Some [0x424] else if c = 0x445 then Some [0x425] else
     if c = 0x446 then Some [0x426] else if c = 0x447 then Some [0x427] else
     if c = 0x448 then Some [0x428] else if c = 0x449 then Some [0x429] else
     if c = 0x44A then Some [0x42A] else if c = 0x44B then Some [0x42B] else
     if c = 0x44C then Some [0x42C] else if c = 0x44D then Some [0x42D] else
     if c = 0x44E then Some [0x42E] else if c = 0x44F then Some [0x42F] else
     if c = 0x450 then Some [0x400] else if c = 0x451 then Some [0x401] else
     if c = 0x452 then Some [0x402] else if c = 0x453 then Some [0x403] else
     if c = 0x454 then Some [0x404] else if c = 0x455 then Some [0x405] else
     if c = 0x456 then Some [0x406] else if c = 0x457 then Some [0x407] else
     if c = 0x458 then Some [0x408] else if c = 0x459 then Some [0x409] else
     if c = 0x45A then Some [0x40A] else if c = 0x45B then Some [0x40B] else
     if c = 0x45C then Some [0x40C] else if c = 0x45D then Some [0x40D] else
     if c = 0x45E then Some [0x40E] else if c = 0x45F then Some [0x40F] else
     if c = 0x461 then Some [0x460] else if c = 0x463 then Some [0x462] else
     if c = 0x465 then Some [0x464] else if c = 0x467 then Some [0x466] else
     if c = 0x469 then Some [0x468] else if c = 0x46B then Some [0x46A] else
     if c = 0x46D then Some [0x46C] else if c = 0x46F then Some [0x46E] else
     if c = 0x471 then Some [0x470] else if c = 0x473 then Some [0x472] else
     if c = 0x475 then Some [0x474] else if c = 0x477 then Some [0x476] else
     if c = 0x479 then Some [0x478] else if c = 0x47B then Some [0x47A] else
     if c = 0x47D then Some [0x47C] else if c = 0x47F then Some [0x47E] else
     if c = 0x481 then Some [0x480] else if c = 0x48B then Some [0x48A] else
     if c = 0x48D then Some [0x48C] else if c = 0x48F then Some [0x48E] else
     if c = 0x491 then Some [0x490] else if c = 0x493 then Some [0x492] else
     if c = 0x495 then Some [0x494] else if c = 0x497 then Some [0x496] else
     if c = 0x499 then Some [0x498] else if c = 0x49B then Some [0x49A] else
     if c = 0x49D then Some [0x49C] else if c = 0x49F then Some [0x49E] else
     if c = 0x4A1 then Some [0x4A0] else if c = 0x4A3 then Some [0x4A2] else
     if c = 0x4A5 then Some [0x4A4] else if c = 0x4A7 then Some [0x4A6] else
     if c = 0x4A9 then Some [0x4A8] else if c = 0x4AB then Some [0x4AA] else
     if c = 0x4AD then Some [0x4AC] else if c = 0x4AF then Some [0x4AE] else
     if c = 0x4B1 then Some [0x4B0] else if c = 0x4B3 then Some [0x4B2] else
     if c = 0x4B5 then Some [0x4B4] else if c = 0x4B7 then Some [0x4B6] else
     if c = 0x4B9 then Some [0x4B8] else if c = 0x4BB then Some [0x4BA] else
     if c = 0x4BD then Some [0x4BC] else if c = 0x4BF then Some [0x4BE] else
     if c = 0x4C2 then Some [0x4C1] else if c = 0x4C4 then Some [0x4C3] else
     if c = 0x4C6 then Some [0x4C5] else if c = 0x4C8 then Some [0x4C7] else
     if c = 0x4CA then Some [0x4C9] else if c = 0x4CC then Some [0x4CB] else
     if c = 0x4CE then Some [0x4CD] else if c = 0x4CF then Some [0x4C0] else
     if c = 0x4D1 then Some [0x4D0] else if c = 0x4D3 then Some [0x4D2] else
     if c = 0x4D5 then Some [0x4D4] else if c = 0x4D7 then Some [0x4D6] else
     if c = 0x4D9 then Some [0x4D8] else if c = 0x4DB then Some [0x4DA] else
     if c = 0x4DD then Some [0x4DC] else if c = 0x4DF then Some [0x4DE] else
     if c = 0x4E1 then Some [0x4E0] else if c = 0x4E3 then Some [0x4E2] else
     if c = 0x4E5 then Some [0x4E4] else if c = 0x4E7 then Some [0x4E6] else
     if c = 0x4E9 then Some [0x4E8] else if c = 0x4EB then Some [0x4EA] else
     if c = 0x4ED then Some [0x4EC] else if c = 0x4EF then Some [0x4EE] else
     if c = 0x4F1 then Some [0x4F0] else if c = 0x4F3 then Some [0x4F2] else
     if c = 0x4F5 then Some [0x4F4] else if c = 0x4F7 then Some [0x4F6] else
     if c = 0x4F9 then Some [0x4F8] else if c = 0x4FB then Some [0x4FA] else
     if c = 0x4FD then Some [0x4FC] else if c = 0x4FF then Some [0x4FE] else None)"

definition upper_page_0500 :: "nat \<Rightarrow> nat list option" where
  "upper_page_0500 c =
    (if c = 0x501 then Some [0x500] else if c = 0x503 then Some [0x502] else
     if c = 0x505 then Some [0x504] else if c = 0x507 then Some [0x506] else
     if c = 0x509 then Some [0x508] else if c = 0x50B then Some [0x50A] else
     if c = 0x50D then Some [0x50C] else if c = 0x50F then Some [0x50E] else
     if c = 0x511 then Some [0x510] else if c = 0x513 then Some [0x512] else
     if c = 0x515 then Some [0x514] else if c = 0x517 then Some [0x516] else
     if c = 0x519 then Some [0x518] else if c = 0x51B then Some [0x51A] else
     if c = 0x51D then Some [0x51C] else if c = 0x51F then Some [0x51E] else
     if c = 0x521 then Some [0x520] else if c = 0x523 then Some [0x522] else
     if c = 0x525 then Some [0x524] else if c = 0x527 then Some [0x526] else
     if c = 0x529 then Some [0x528] else if c = 0x52B then Some [0x52A] else
     if c = 0x52D then Some [0x52C] else if c = 0x52F then Some [0x52E] else
     if c = 0x561 then Some [0x531] else if c = 0x562 then Some [0x532] else
     if c = 0x563 then Some [0x533] else if c = 0x564 then Some [0x534] else
     if c = 0x565 then Some [0x535] else if c = 0x566 then Some [0x536] else
     if c = 0x567 then Some [0x537] else if c = 0x568 then Some [0x538] else
     if c = 0x569 then Some [0x539] else if c = 0x56A then Some [0x53A] else
     if c = 0x56B then Some [0x53B] else if c = 0x56C then Some [0x53C] else
     if c = 0x56D then Some [0x53D] else if c = 0x56E then Some [0x53E] else
     if c = 0x56F then Some [0x53F] else if c = 0x570 then Some [0x540] else
     if c = 0x571 then Some [0x541] else if c = 0x572 then Some [0x542] else
     if c = 0x573 then Some [0x543] else if c = 0x574 then Some [0x544] else
     if c = 0x575 then Some [0x545] else if c = 0x576 then Some [0x546] else
     if c = 0x577 then Some [0x547] else if c = 0x578 then Some [0x548] else
     if c = 0x579 then Some [0x549] else if c = 0x57A then Some [0x54A] else
     if c = 0x57B then Some [0x54B] else if c = 0x57C then Some [0x54C] else
     if c = 0x57D then Some [0x54D] else if c = 0x57E then Some [0x54E] else
     if c = 0x57F then Some [0x54F] else if c = 0x580 then Some [0x550] else
     if c = 0x581 then Some [0x551] else if c = 0x582 then Some [0x552] else
     if c = 0x583 then Some [0x553] else if c = 0x584 then Some [0x554] else
     if c = 0x585 then Some [0x555] else if c = 0x586 then Some [0x556] else
     if c = 0x587 then Some [0x535, 0x552] else None)"

definition upper_page_1000 :: "nat \<Rightarrow> nat list option" where
  "upper_page_1000 c =
    (if c = 0x10D0 then Some [0x1C90] else if c = 0x10D1 then Some [0x1C91] else
     if c = 0x10D2 then Some [0x1C92] else if c = 0x10D3 then Some [0x1C93] else
     if c = 0x10D4 then Some [0x1C94] else if c = 0x10D5 then Some [0x1C95] else
     if c = 0x10D6 then Some [0x1C96] else if c = 0x10D7 then Some [0x1C97] else
     if c = 0x10D8 then Some [0x1C98] else if c = 0x10D9 then Some [0x1C99] else
     if c = 0x10DA then Some [0x1C9A] else if c = 0x10DB then Some [0x1C9B] else
     if c = 0x10DC then Some [0x1C9C] else if c = 0x10DD then Some [0x1C9D] else
     if c = 0x10DE then Some [0x1C9E] else if c = 0x10DF then Some [0x1C9F] else
     if c = 0x10E0 then Some [0x1CA0] else if c = 0x10E1 then Some [0x1CA1] else
     if c = 0x10E2 then Some [0x1CA2] else if c = 0x10E3 then Some [0x1CA3] else
     if c = 0x10E4 then Some [0x1CA4] else if c = 0x10E5 then Some [0x1CA5] else
     if c = 0x10E6 then Some [0x1CA6] else if c = 0x10E7 then Some [0x1CA7] else
     if c = 0x10E8 then Some [0x1CA8] else if c = 0x10E9 then Some [0x1CA9] else
     if c = 0x10EA then Some [0x1CAA] else if c = 0x10EB then Some [0x1CAB] else
     if c = 0x10EC then Some [0x1CAC] else if c = 0x10ED then Some [0x1CAD] else
     if c = 0x10EE then Some [0x1CAE] else if c = 0x10EF then Some [0x1CAF] else
     if c = 0x10F0 then Some [0x1CB0] else if c = 0x10F1 then Some [0x1CB1] else
     if c = 0x10F2 then Some [0x1CB2] else if c = 0x10F3 then Some [0x1CB3] else
     if c = 0x10F4 then Some [0x1CB4] else if c = 0x10F5 then Some [0x1CB5] else
     if c = 0x10F6 then Some [0x1CB6] else if c = 0x10F7 then Some [0x1CB7] else
     if c = 0x10F8 then Some [0x1CB8] else if c = 0x10F9 then Some [0x1CB9] else
     if c = 0x10FA then Some [0x1CBA] else if c = 0x10FD then Some [0x1CBD] else
     if c = 0x10FE then Some [0x1CBE] else if c = 0x10FF then Some [0x1CBF] else None)"

definition upper_page_1300 :: "nat \<Rightarrow> nat list option" where
  "upper_page_1300 c =
    (if c = 0x13F8 then Some [0x13F0] else if c = 0x13F9 then Some [0x13F1] else
     if c = 0x13FA then Some [0x13F2] else if c = 0x13FB then Some [0x13F3] else
     if c = 0x13FC then Some [0x13F4] else if c = 0x13FD then Some [0x13F5] else None)"

definition upper_page_1C00 :: "nat \<Rightarrow> nat list option" where
  "upper_page_1C00 c =
    (if c = 0x1C80 then Some [0x412] else if c = 0x1C81 then Some [0x414] else
     if c = 0x1C82 then Some [0x41E] else if c = 0x1C83 then Some [0x421] else
     if c = 0x1C84 then Some [0x422] else if c = 0x1C85 then Some [0x422] else
     if c = 0x1C86 then Some [0x42A] else if c = 0x1C87 then Some [0x462] else
     if c = 0x1C88 then Some [0xA64A] else None)"

definition upper_page_1D00 :: "nat \<Rightarrow> nat list option" where
  "upper_page_1D00 c =
    (if c = 0x1D79 then Some [0xA77D] else if c = 0x1D7D then Some [0x2C63] else
     if c = 0x1D8E then Some [0xA7C6] else None)"

definition upper_page_1E00 :: "nat \<Rightarrow> nat list option" where
  "upper_page_1E00 c =
    (if c = 0x1E01 then Some [0x1E00] else if c = 0x1E03 then Some [0x1E02] else
     if c = 0x1E05 then Some [0x1E04] else if c = 0x1E07 then Some [0x1E06] else
     if c = 0x1E09 then Some [0x1E08] else if c = 0x1E0B then Some [0x1E0A] else
     if c = 0x1E0D then Some [0x1E0C] else if c = 0x1E0F then Some [0x1E0E] else
     if c = 0x1E11 then Some [0x1E10] else if c = 0x1E13 then Some [0x1E12] else
     if c = 0x1E15 then Some [0x1E14] else if c = 0x1E17 then Some [0x1E16] else
     if c = 0x1E19 then Some [0x1E18] else if c = 0x1E1B then Some [0x1E1A] else
     if c = 0x1E1D then Some [0x1E1C] else if c = 0x1E1F then Some [0x1E1E] else
     if c = 0x1E21 then Some [0x1E20] else if c = 0x1E23 then Some [0x1E22] else
     if c = 0x1E25 then Some [0x1E24] else if c = 0x1E27 then Some [0x1E26] else
     if c = 0x1E29 then Some [0x1E28] else if c = 0x1E2B then Some [0x1E2A] else
     if c = 0x1E2D then Some [0x1E2C] else if c = 0x1E2F then Some [0x1E2E] else
     if c = 0x1E31 then Some [0x1E30] else if c = 0x1E33 then Some [0x1E32] else
     if c = 0x1E35 then Some [0x1E34] else if c = 0x1E37 then Some [0x1E36] else
     if c = 0x1E39 then Some [0x1E38] else if c = 0x1E3B then Some [0x1E3A] else
     if c = 0x1E3D then Some [0x1E3C] else if c = 0x1E3F then Some [0x1E3E] else
     if c = 0x1E41 then Some [0x1E40] else if c = 0x1E43 then Some [0x1E42] else
     if c = 0x1E45 then Some [0x1E44] else if c = 0x1E47 then Some [0x1E46] else
     if c = 0x1E49 then Some [0x1E48] else if c = 0x1E4B then Some [0x1E4A] else
     if c = 0x1E4D then Some [0x1E4C] else if c = 0x1E4F then Some [0x1E4E] else
     if c = 0x1E51 then Some [0x1E50] else if c = 0x1E53 then Some [0x1E52] else
     if c = 0x1E55 then Some [0x1E54] else if c = 0x1E57 then Some [0x1E56] else
     if c = 0x1E59 then Some [0x1E58] else if c = 0x1E5B then Some [0x1E5A] else
     if c = 0x1E5D then Some [0x1E5C] else if c = 0x1E5F then Some [0x1E5E] else
     if c = 0x1E61 then Some [0x1E60] else if c = 0x1E63 then Some [0x1E62] else
     if c = 0x1E65 then Some [0x1E64] else if c = 0x1E67 then Some [0x1E66] else
     if c = 0x1E69 then Some [0x1E68] else if c = 0x1E6B then Some [0x1E6A] else
     if c = 0x1E6D then Some [0x1E6C] else if c = 0x1E6F then Some [0x1E6E] else
     if c = 0x1E71 then Some [0x1E70] else if c = 0x1E73 then Some [0x1E72] else
     if c = 0x1E75 then Some [0x1E74] else if c = 0x1E77 then Some [0x1E76] else
     if c = 0x1E79 then Some [0x1E78] else if c = 0x1E7B then Some [0x1E7A] else
     if c = 0x1E7D then Some [0x1E7C] else if c = 0x1E7F then Some [0x1E7E] else
     if c = 0x1E81 then Some [0x1E80] else if c = 0x1E83 then Some [0x1E82] else
     if c = 0x1E85 then Some [0x1E84] else if c = 0x1E87 then Some [0x1E86] else
     if c = 0x1E89 then Some [0x1E88] else if c = 0x1E8B then Some [0x1E8A] else
     if c = 0x1E8D then Some [0x1E8C] else if c = 0x1E8F then Some [0x1E8E] else
     if c = 0x1E91 then Some [0x1E90] else if c = 0x1E93 then Some [0x1E92] else
     if c = 0x1E95 then Some [0x1E94] else if c = 0x1E96 then Some [0x48, 0x331] else
     if c = 0x1E97 then Some [0x54, 0x308] else if c = 0x1E98 then Some [0x57, 0x30A] else
     if c = 0x1E99 then Some [0x59, 0x30A] else if c = 0x1E9A then Some [0x41, 0x2BE] else
     if c = 0x1E9B then Some [0x1E60] else if c = 0x1EA1 then Some [0x1EA0] else
     if c = 0x1EA3 then Some [0x1EA2] else if c = 0x1EA5 then Some [0x1EA4] else
     if c = 0x1EA7 then Some [0x1EA6] else if c = 0x1EA9 then Some [0x1EA8] else
     if c = 0x1EAB then Some [0x1EAA] else if c = 0x1EAD then Some [0x1EAC] else
     if c = 0x1EAF then Some [0x1EAE] else if c = 0x1EB1 then Some [0x1EB0] else
     if c = 0x1EB3 then Some [0x1EB2] else if c = 0x1EB5 then Some [0x1EB4] else
     if c = 0x1EB7 then Some [0x1EB6] else if c = 0x1EB9 then Some [0x1EB8] else
     if c = 0x1EBB then Some [0x1EBA] else if c = 0x1EBD then Some [0x1EBC] else
     if c = 0x1EBF then Some [0x1EBE] else if c = 0x1EC1 then Some [0x1EC0] else
     if c = 0x1EC3 then Some [0x1EC2] else if c = 0x1EC5 then Some [0x1EC4] else
     if c = 0x1EC7 then Some [0x1EC6] else if c = 0x1EC9 then Some [0x1EC8] else
     if c = 0x1ECB then Some [0x1ECA] else if c = 0x1ECD then Some [0x1ECC] else
     if c = 0x1ECF then Some [0x1ECE] else if c = 0x1ED1 then Some [0x1ED0] else
     if c = 0x1ED3 then Some [0x1ED2] else if c = 0x1ED5 then Some [0x1ED4] else
     if c = 0x1ED7 then Some [0x1ED6] else if c = 0x1ED9 then Some [0x1ED8] else
     if c = 0x1EDB then Some [0x1EDA] else if c = 0x1EDD then Some [0x1EDC] else
     if c = 0x1EDF then Some [0x1EDE] else if c = 0x1EE1 then Some [0x1EE0] else
     if c = 0x1EE3 then Some [0x1EE2] else if c = 0x1EE5 then Some [0x1EE4] else
     if c = 0x1EE7 then Some [0x1EE6] else if c = 0x1EE9 then Some [0x1EE8] else
     if c = 0x1EEB then Some [0x1EEA] else if c = 0x1EED then Some [0x1EEC] else
     if c = 0x1EEF then Some [0x1EEE] else if c = 0x1EF1 then Some [0x1EF0] else
     if c = 0x1EF3 then Some [0x1EF2] else if c = 0x1EF5 then Some [0x1EF4] else
     if c = 0x1EF7 then Some [0x1EF6] else if c = 0x1EF9 then Some [0x1EF8] else
     if c = 0x1EFB then Some [0x1EFA] else if c = 0x1EFD then Some [0x1EFC] else
     if c = 0x1EFF then Some [0x1EFE] else None)"

definition upper_page_1F00 :: "nat \<Rightarrow> nat list option" where
  "upper_page_1F00 c =
    (if c = 0x1F00 then Some [0x1F08] else if c = 0x1F01 then Some [0x1F09] else
     if c = 0x1F02 then Some [0x1F0A] else if c = 0x1F03 then Some [0x1F0B] else
     if c = 0x1F04 then Some [0x1F0C] else if c = 0x1F05 then Some [0x1F0D] else
     if c = 0x1F06 then Some [0x1F0E] else if c = 0x1F07 then Some [0x1F0F] else
     if c = 0x1F10 then Some [0x1F18] else if c = 0x1F11 then Some [0x1F19] else
     if c = 0x1F12 then Some [0x1F1A] else if c = 0x1F13 then Some [0x1F1B] else
     if c = 0x1F14 then Some [0x1F1C] else if c = 0x1F15 then Some [0x1F1D] else
     if c = 0x1F20 then Some [0x1F28] else if c = 0x1F21 then Some [0x1F29] else
     if c = 0x1F22 then Some [0x1F2A] else if c = 0x1F23 then Some [0x1F2B] else
     if c = 0x1F24 then Some [0x1F2C] else if c = 0x1F25 then Some [0x1F2D] else
     if c = 0x1F26 then Some [0x1F2E] else if c = 0x1F27 then Some [0x1F2F] else
     if c = 0x1F30 then Some [0x1F38] else if c = 0x1F31 then Some [0x1F39] else
     if c = 0x1F32 then Some [0x1F3A] else if c = 0x1F33 then Some [0x1F3B] else
     if c = 0x1F34 then Some [0x1F3C] else if c = 0x1F35 then Some [0x1F3D] else
     if c = 0x1F36 then Some [0x1F3E] else if c = 0x1F37 then Some [0x1F3F] else
     if c = 0x1F40 then Some [0x1F48] else if c = 0x1F41 then Some [0x1F49] else
     if c = 0x1F42 then Some [0x1F4A] else if c = 0x1F43 then Some [0x1F4B] else
     if c = 0x1F44 then Some [0x1F4C] else if c = 0x1F45 then Some [0x1F4D] else
     if c = 0x1F50 then Some [0x3A5, 0x313] else if c = 0x1F51 then Some [0x1F59] else
     if c = 0x1F52 then Some [0x3A5, 0x313, 0x300] else if c = 0x1F53 then Some [0x1F5B] else
     if c = 0x1F54 then Some [0x3A5, 0x313, 0x301] else if c = 0x1F55 then Some [0x1F5D] else
     if c = 0x1F56 then Some [0x3A5, 0x313, 0x342] else if c = 0x1F57 then Some [0x1F5F] else
     if c = 0x1F60 then Some [0x1F68] else if c = 0x1F61 then Some [0x1F69] else
     if c = 0x1F62 then Some [0x1F6A] else if c = 0x1F63 then Some [0x1F6B] else
     if c = 0x1F64 then Some [0x1F6C] else if c = 0x1F65 then Some [0x1F6D] else
     if c = 0x1F66 then Some [0x1F6E] else if c = 0x1F67 then Some [0x1F6F] else
     if c = 0x1F70 then Some [0x1FBA] else if c = 0x1F71 then Some [0x1FBB] else
     if c = 0x1F72 then Some [0x1FC8] else if c = 0x1F73 then Some [0x1FC9] else
     if c = 0x1F74 then Some [0x1FCA] else if c = 0x1F75 then Some [0x1FCB] else
     if c = 0x1F76 then Some [0x1FDA] else if c = 0x1F77 then Some [0x1FDB] else
     if c = 0x1F78 then Some [0x1FF8] else if c = 0x1F79 then Some [0x1FF9] else
     if c = 0x1F7A then Some [0x1FEA] else if c = 0x1F7B then Some [0x1FEB] else
     if c = 0x1F7C then Some [0x1FFA] else if c = 0x1F7D then Some [0x1FFB] else
     if c = 0x1F80 then Some [0x1F08, 0x399] else if c = 0x1F81 then Some [0x1F09, 0x399] else
     if c = 0x1F82 then Some [0x1F0A, 0x399] else if c = 0x1F83 then Some [0x1F0B, 0x399] else
     if c = 0x1F84 then Some [0x1F0C, 0x399] else if c = 0x1F85 then Some [0x1F0D, 0x399] else
     if c = 0x1F86 then Some [0x1F0E, 0x399] else if c = 0x1F87 then Some [0x1F0F, 0x399] else
     if c = 0x1F88 then Some [0x1F08, 0x399] else if c = 0x1F89 then Some [0x1F09, 0x399] else
     if c = 0x1F8A then Some [0x1F0A, 0x399] else if c = 0x1F8B then Some [0x1F0B, 0x399] else
     if c = 0x1F8C then Some [0x1F0C, 0x399] else if c = 0x1F8D then Some [0x1F0D, 0x399] else
     if c = 0x1F8E then Some [0x1F0E, 0x399] else if c = 0x1F8F then Some [0x1F0F, 0x399] else
     if c = 0x1F90 then Some [0x1F28, 0x399] else if c = 0x1F91 then Some [0x1F29, 0x399] else
     if c = 0x1F92 then Some [0x1F2A, 0x399] else if c = 0x1F93 then Some [0x1F2B, 0x399] else
     if c = 0x1F94 then Some [0x1F2C, 0x399] else if c = 0x1F95 then Some [0x1F2D, 0x399] else
     if c = 0x1F96 then Some [0x1F2E, 0x399] else if c = 0x1F97 then Some [0x1F2F, 0x399] else
     if c = 0x1F98 then Some [0x1F28, 0x399] else if c = 0x1F99 then Some [0x1F29, 0x399] else
     if c = 0x1F9A then Some [0x1F2A, 0x399] else if c = 0x1F9B then Some [0x1F2B, 0x399] else
     if c = 0x1F9C then Some [0x1F2C, 0x399] else if c = 0x1F9D then Some [0x1F2D, 0x399] else
     if c = 0x1F9E then Some [0x1F2E, 0x399] else if c = 0x1F9F then Some [0x1F2F, 0x399] else
     if c = 0x1FA0 then Some [0x1F68, 0x399] else if c = 0x1FA1 then Some [0x1F69, 0x399] else
     if c = 0x1FA2 then Some [0x1F6A, 0x399] else if c = 0x1FA3 then Some [0x1F6B, 0x399] else
     if c = 0x1FA4 then Some [0x1F6C, 0x399] else if c = 0x1FA5 then Some [0x1F6D, 0x399] else
     if c = 0x1FA6 then Some [0x1F6E, 0x399] else if c = 0x1FA7 then Some [0x1F6F, 0x399] else
     if c = 0x1FA8 then Some [0x1F68, 0x399] else if c = 0x1FA9 then Some [0x1F69, 0x399] else
     if c = 0x1FAA then Some [0x1F6A, 0x399] else if c = 0x1FAB then Some [0x1F6B, 0x399] else
     if c = 0x1FAC then Some [0x1F6C, 0x399] else if c = 0x1FAD then Some [0x1F6D, 0x399] else
     if c = 0x1FAE then Some [0x1F6E, 0x399] else if c = 0x1FAF then Some [0x1F6F, 0x399] else
     if c = 0x1FB0 then Some [0x1FB8] else if c = 0x1FB1 then Some [0x1FB9] else
     if c = 0x1FB2 then Some [0x1FBA, 0x399] else if c = 0x1FB3 then Some [0x391, 0x399] else
     if c = 0x1FB4 then Some [0x386, 0x399] else if c = 0x1FB6 then Some [0x391, 0x342] else
     if c = 0x1FB7 then Some [0x391, 0x342, 0x399] else
     if c = 0x1FBC then Some [0x391, 0x399] else if c = 0x1FBE then Some [0x399] else
     if c = 0x1FC2 then Some [0x1FCA, 0x399] else if c = 0x1FC3 then Some [0x397, 0x399] else
     if c = 0x1FC4 then Some [0x389, 0x399] else if c = 0x1FC6 then Some [0x397, 0x342] else
     if c = 0x1FC7 then Some [0x397, 0x342, 0x399] else
     if c = 0x1FCC then Some [0x397, 0x399] else if c = 0x1FD0 then Some [0x1FD8] else
     if c = 0x1FD1 then Some [0x1FD9] else if c = 0x1FD2 then Some [0x399, 0x308, 0x300] else
     if c = 0x1FD3 then Some [0x399, 0x308, 0x301] else
     if c = 0x1FD6 then Some [0x399, 0x342] else
     if c = 0x1FD7 then Some [0x399, 0x308, 0x342] else if c = 0x1FE0 then Some [0x1FE8] else
     if c = 0x1FE1 then Some [0x1FE9] else if c = 0x1FE2 then Some [0x3A5, 0x308, 0x300] else
     if c = 0x1FE3 then Some [0x3A5, 0x308, 0x301] else
     if c = 0x1FE4 then Some [0x3A1, 0x313] else if c = 0x1FE5 then Some [0x1FEC] else
     if c = 0x1FE6 then Some [0x3A5, 0x342] else
     if c = 0x1FE7 then Some [0x3A5, 0x308, 0x342] else
     if c = 0x1FF2 then Some [0x1FFA, 0x399] else if c = 0x1FF3 then Some [0x3A9, 0x399] else
     if c = 0x1FF4 then Some [0x38F, 0x399] else if c = 0x1FF6 then Some [0x3A9, 0x342] else
     if c = 0x1FF7 then Some [0x3A9, 0x342, 0x399] else
     if c = 0x1FFC then Some [0x3A9, 0x399] else None)"

definition upper_page_2100 :: "nat \<Rightarrow> nat list option" where
  "upper_page_2100 c =
    (if c = 0x214E then Some [0x2132] else if c = 0x2170 then Some [0x2160] else
     if c = 0x2171 then Some [0x2161] else if c = 0x2172 then Some [0x2162] else
     if c = 0x2173 then Some [0x2163] else if c = 0x2174 then Some [0x2164] else
     if c = 0x2175 then Some [0x2165] else if c = 0x2176 then Some [0x2166] else
     if c = 0x2177 then Some [0x2167] else if c = 0x2178 then Some [0x2168] else
     if c = 0x2179 then Some [0x2169] else if c = 0x217A then Some [0x216A] else
     if c = 0x217B then Some [0x216B] else if c = 0x217C then Some [0x216C] else
     if c = 0x217D then Some [0x216D] else if c = 0x217E then Some [0x216E] else
     if c = 0x217F then Some [0x216F] else if c = 0x2184 then Some [0x2183] else None)"

definition upper_page_2400 :: "nat \<Rightarrow> nat list option" where
  "upper_page_2400 c =
    (if c = 0x24D0 then Some [0x24B6] else if c = 0x24D1 then Some [0x24B7] else
     if c = 0x24D2 then Some [0x24B8] else if c = 0x24D3 then Some [0x24B9] else
     if c = 0x24D4 then Some [0x24BA] else if c = 0x24D5 then Some [0x24BB] else
     if c = 0x24D6 then Some [0x24BC] else if c = 0x24D7 then Some [0x24BD] else
     if c = 0x24D8 then Some [0x24BE] else if c = 0x24D9 then Some [0x24BF] else
     if c = 0x24DA then Some [0x24C0] else if c = 0x24DB then Some [0x24C1] else
     if c = 0x24DC then Some [0x24C2] else if c = 0x24DD then Some [0x24C3] else
     if c = 0x24DE then Some [0x24C4] else if c = 0x24DF then Some [0x24C5] else
     if c = 0x24E0 then Some [0x24C6] else if c = 0x24E1 then Some [0x24C7] else
     if c = 0x24E2 then Some [0x24C8] else if c = 0x24E3 then Some [0x24C9] else
     if c = 0x24E4 then Some [0x24CA] else if c = 0x24E5 then Some [0x24CB] else
     if c = 0x24E6 then Some [0x24CC] else if c = 0x24E7 then Some [0x24CD] else
     if c = 0x24E8 then Some [0x24CE] else if c = 0x24E9 then Some [0x24CF] else None)"

definition upper_page_2C00 :: "nat \<Rightarrow> nat list option" where
  "upper_page_2C00 c =
    (if c = 0x2C30 then Some [0x2C00] else if c = 0x2C31 then Some [0x2C01] else
     if c = 0x2C32 then Some [0x2C02] else if c = 0x2C33 then Some [0x2C03] else
     if c = 0x2C34 then Some [0x2C04] else if c = 0x2C35 then Some [0x2C05] else
     if c = 0x2C36 then Some [0x2C06] else if c = 0x2C37 then Some [0x2C07] else
     if c = 0x2C38 then Some [0x2C08] else if c = 0x2C39 then Some [0x2C09] else
     if c = 0x2C3A then Some [0x2C0A] else if c = 0x2C3B then Some [0x2C0B] else
     if c = 0x2C3C then Some [0x2C0C] else if c = 0x2C3D then Some [0x2C0D] else
     if c = 0x2C3E then Some [0x2C0E] else if c = 0x2C3F then Some [0x2C0F] else
     if c = 0x2C40 then Some [0x2C10] else if c = 0x2C41 then Some [0x2C11] else
     if c = 0x2C42 then Some [0x2C12] else if c = 0x2C43 then Some [0x2C13] else
     if c = 0x2C44 then Some [0x2C14] else if c = 0x2C45 then Some [0x2C15] else
     if c = 0x2C46 then Some [0x2C16] else if c = 0x2C47 then Some [0x2C17] else
     if c = 0x2C48 then Some [0x2C18] else if c = 0x2C49 then Some [0x2C19] else
     if c = 0x2C4A then Some [0x2C1A] else if c = 0x2C4B then Some [0x2C1B] else
     if c = 0x2C4C then Some [0x2C1C] else if c = 0x2C4D then Some [0x2C1D] else
     if c = 0x2C4E then Some [0x2C1E] else if c = 0x2C4F then Some [0x2C1F] else
     if c = 0x2C50 then Some [0x2C20] else if c = 0x2C51 then Some [0x2C21] else
     if c = 0x2C52 then Some [0x2C22] else if c = 0x2C53 then Some [0x2C23] else
     if c = 0x2C54 then Some [0x2C24] else if c = 0x2C55 then Some [0x2C25] else
     if c = 0x2C56 then Some [0x2C26] else if c = 0x2C57 then Some [0x2C27] else
     if c = 0x2C58 then Some [0x2C28] else if c = 0x2C59 then Some [0x2C29] else
     if c = 0x2C5A then Some [0x2C2A] else if c = 0x2C5B then Some [0x2C2B] else
     if c = 0x2C5C then Some [0x2C2C] else if c = 0x2C5D then Some [0x2C2D] else
     if c = 0x2C5E then Some [0x2C2E] else if c = 0x2C5F then Some [0x2C2F] else
     if c = 0x2C61 then Some [0x2C60] else if c = 0x2C65 then Some [0x23A] else
     if c = 0x2C66 then Some [0x23E] else if c = 0x2C68 then Some [0x2C67] else
     if c = 0x2C6A then Some [0x2C69] else if c = 0x2C6C then Some [0x2C6B] else
     if c = 0x2C73 then Some [0x2C72] else if c = 0x2C76 then Some [0x2C75] else
     if c = 0x2C81 then Some [0x2C80] else if c = 0x2C83 then Some [0x2C82] else
     if c = 0x2C85 then Some [0x2C84] else if c = 0x2C87 then Some [0x2C86] else
     if c = 0x2C89 then Some [0x2C88] else if c = 0x2C8B then Some [0x2C8A] else
     if c = 0x2C8D then Some [0x2C8C] else if c = 0x2C8F then Some [0x2C8E] else
     if c = 0x2C91 then Some [0x2C90] else if c = 0x2C93 then Some [0x2C92] else
     if c = 0x2C95 then Some [0x2C94] else if c = 0x2C97 then Some [0x2C96] else
     if c = 0x2C99 then Some [0x2C98] else if c = 0x2C9B then Some [0x2C9A] else
     if c = 0x2C9D then Some [0x2C9C] else if c = 0x2C9F then Some [0x2C9E] else
     if c = 0x2CA1 then Some [0x2CA0] else if c = 0x2CA3 then Some [0x2CA2] else
     if c = 0x2CA5 then Some [0x2CA4] else if c = 0x2CA7 then Some [0x2CA6] else
     if c = 0x2CA9 then Some [0x2CA8] else if c = 0x2CAB then Some [0x2CAA] else
     if c = 0x2CAD then Some [0x2CAC] else if c = 0x2CAF then Some [0x2CAE] else
     if c = 0x2CB1 then Some [0x2CB0] else if c = 0x2CB3 then Some [0x2CB2] else
     if c = 0x2CB5 then Some [0x2CB4] else if c = 0x2CB7 then Some [0x2CB6] else
     if c = 0x2CB9 then Some [0x2CB8] else if c = 0x2CBB then Some [0x2CBA] else
     if c = 0x2CBD then Some [0x2CBC] else if c = 0x2CBF then Some [0x2CBE] else
     if c = 0x2CC1 then Some [0x2CC0] else if c = 0x2CC3 then Some [0x2CC2] else
     if c = 0x2CC5 then Some [0x2CC4] else if c = 0x2CC7 then Some [0x2CC6] else
     if c = 0x2CC9 then Some [0x2CC8] else if c = 0x2CCB then Some [0x2CCA] else
     if c = 0x2CCD then Some [0x2CCC] else if c = 0x2CCF then Some [0x2CCE] else
     if c = 0x2CD1 then Some [0x2CD0] else if c = 0x2CD3 then Some [0x2CD2] else
     if c = 0x2CD5 then Some [0x2CD4] else if c = 0x2CD7 then Some [0x2CD6] else
     if c = 0x2CD9 then Some [0x2CD8] else if c = 0x2CDB then Some [0x2CDA] else
     if c = 0x2CDD then Some [0x2CDC] else if c = 0x2CDF then Some [0x2CDE] else
     if c = 0x2CE1 then Some [0x2CE0] else if c = 0x2CE3 then Some [0x2CE2] else
     if c = 0x2CEC then Some [0x2CEB] else if c = 0x2CEE then Some [0x2CED] else
     if c = 0x2CF3 then Some [0x2CF2] else None)"

definition upper_page_2D00 :: "nat \<Rightarrow> nat list option" where
  "upper_page_2D00 c =
    (if c = 0x2D00 then Some [0x10A0] else if c = 0x2D01 then Some [0x10A1] else
     if c = 0x2D02 then Some [0x10A2] else if c = 0x2D03 then Some [0x10A3] else
     if c = 0x2D04 then Some [0x10A4] else if c = 0x2D05 then Some [0x10A5] else
     if c = 0x2D06 then Some [0x10A6] else if c = 0x2D07 then Some [0x10A7] else
     if c = 0x2D08 then Some [0x10A8] else if c = 0x2D09 then Some [0x10A9] else
     if c = 0x2D0A then Some [0x10AA] else if c = 0x2D0B then Some [0x10AB] else
     if c = 0x2D0C then Some [0x10AC] else if c = 0x2D0D then Some [0x10AD] else
     if c = 0x2D0E then Some [0x10AE] else if c = 0x2D0F then Some [0x10AF] else
     if c = 0x2D10 then Some [0x10B0] else if c = 0x2D11 then Some [0x10B1] else
     if c = 0x2D12 then Some [0x10B2] else if c = 0x2D13 then Some [0x10B3] else
     if c = 0x2D14 then Some [0x10B4] else if c = 0x2D15 then Some [0x10B5] else
     if c = 0x2D16 then Some [0x10B6] else if c = 0x2D17 then Some [0x10B7] else
     if c = 0x2D18 then Some [0x10B8] else if c = 0x2D19 then Some [0x10B9] else
     if c = 0x2D1A then Some [0x10BA] else if c = 0x2D1B then Some [0x10BB] else
     if c = 0x2D1C then Some [0x10BC] else if c = 0x2D1D then Some [0x10BD] else
     if c = 0x2D1E then Some [0x10BE] else if c = 0x2D1F then Some [0x10BF] else
     if c = 0x2D20 then Some [0x10C0] else if c = 0x2D21 then Some [0x10C1] else
     if c = 0x2D22 then Some [0x10C2] else if c = 0x2D23 then Some [0x10C3] else
     if c = 0x2D24 then Some [0x10C4] else if c = 0x2D25 then Some [0x10C5] else
     if c = 0x2D27 then Some [0x10C7] else if c = 0x2D2D then Some [0x10CD] else None)"

definition upper_page_A600 :: "nat \<Rightarrow> nat list option" where
  "upper_page_A600 c =
    (if c = 0xA641 then Some [0xA640] else if c = 0xA643 then Some [0xA642] else
     if c = 0xA645 then Some [0xA644] else if c = 0xA647 then Some [0xA646] else
     if c = 0xA649 then Some [0xA648] else if c = 0xA64B then Some [0xA64A] else
     if c = 0xA64D then Some [0xA64C] else if c = 0xA64F then Some [0xA64E] else
     if c = 0xA651 then Some [0xA650] else if c = 0xA653 then Some [0xA652] else
     if c = 0xA655 then Some [0xA654] else if c = 0xA657 then Some [0xA656] else
     if c = 0xA659 then Some [0xA658] else if c = 0xA65B then Some [0xA65A] else
     if c = 0xA65D then Some [0xA65C] else if c = 0xA65F then Some [0xA65E] else
     if c = 0xA661 then Some [0xA660] else if c = 0xA663 then Some [0xA662] else
     if c = 0xA665 then Some [0xA664] else if c = 0xA667 then Some [0xA666] else
     if c = 0xA669 then Some [0xA668] else if c = 0xA66B then Some [0xA66A] else
     if c = 0xA66D then Some [0xA66C] else if c = 0xA681 then Some [0xA680] else
     if c = 0xA683 then Some [0xA682] else if c = 0xA685 then Some [0xA684] else
     if c = 0xA687 then Some [0xA686] else if c = 0xA689 then Some [0xA688] else
     if c = 0xA68B then Some [0xA68A] else if c = 0xA68D then Some [0xA68C] else
     if c = 0xA68F then Some [0xA68E] else if c = 0xA691 then Some [0xA690] else
     if c = 0xA693 then Some [0xA692] else if c = 0xA695 then Some [0xA694] else
     if c = 0xA697 then Some [0xA696] else if c = 0xA699 then Some [0xA698] else
     if c = 0xA69B then Some [0xA69A] else None)"

definition upper_page_A700 :: "nat \<Rightarrow> nat list option" where
  "upper_page_A700 c =
    (if c = 0xA723 then Some [0xA722] else if c = 0xA725 then Some [0xA724] else
     if c = 0xA727 then Some [0xA726] else if c = 0xA729 then Some [0xA728] else
     if c = 0xA72B then Some [0xA72A] else if c = 0xA72D then Some [0xA72C] else
     if c = 0xA72F then Some [0xA72E] else if c = 0xA733 then Some [0xA732] else
     if c = 0xA735 then Some [0xA734] else if c = 0xA737 then Some [0xA736] else
     if c = 0xA739 then Some [0xA738] else if c = 0xA73B then Some [0xA73A] else
     if c = 0xA73D then Some [0xA73C] else if c = 0xA73F then Some [0xA73E] else
     if c = 0xA741 then Some [0xA740] else if c = 0xA743 then Some [0xA742] else
     if c = 0xA745 then Some [0xA744] else if c = 0xA747 then Some [0xA746] else
     if c = 0xA749 then Some [0xA748] else if c = 0xA74B then Some [0xA74A] else
     if c = 0xA74D then Some [0xA74C] else if c = 0xA74F then Some [0xA74E] else
     if c = 0xA751 then Some [0xA750] else if c = 0xA753 then Some [0xA752] else
     if c = 0xA755 then Some [0xA754] else if c = 0xA757 then Some [0xA756] else
     if c = 0xA759 then Some [0xA758] else if c = 0xA75B then Some [0xA75A] else
     if c = 0xA75D then Some [0xA75C] else if c = 0xA75F then Some [0xA75E] else
     if c = 0xA761 then Some [0xA760] else if c = 0xA763 then Some [0xA762] else
     if c = 0xA765 then Some [0xA764] else if c = 0xA767 then Some [0xA766] else
     if c = 0xA769 then Some [0xA768] else if c = 0xA76B then Some [0xA76A] else
     if c = 0xA76D then Some [0xA76C] else if c = 0xA76F then Some [0xA76E] else
     if c = 0xA77A then Some [0xA779] else if c = 0xA77C then Some [0xA77B] else
     if c = 0xA77F then Some [0xA77E] else if c = 0xA781 then Some [0xA780] else
     if c = 0xA783 then Some [0xA782] else if c = 0xA785 then Some [0xA784] else
     if c = 0xA787 then Some [0xA786] else if c = 0xA78C then Some [0xA78B] else
     if c = 0xA791 then Some [0xA790] else if c = 0xA793 then Some [0xA792] else
     if c = 0xA794 then Some [0xA7C4] else if c = 0xA797 then Some [0xA796] else
     if c = 0xA799 then Some [0xA798] else if c = 0xA79B then Some [0xA79A] else
     if c = 0xA79D then Some [0xA79C] else if c = 0xA79F then Some [0xA79E] else
     if c = 0xA7A1 then Some [0xA7A0] else if c = 0xA7A3 then Some [0xA7A2] else
     if c = 0xA7A5 then Some [0xA7A4] else if c = 0xA7A7 then Some [0xA7A6] else
     if c = 0xA7A9 then Some [0xA7A8] else if c = 0xA7B5 then Some [0xA7B4] else
     if c = 0xA7B7 then Some [0xA7B6] else if c = 0xA7B9 then Some [0xA7B8] else
     if c = 0xA7BB then Some [0xA7BA] else if c = 0xA7BD then Some [0xA7BC] else
     if c = 0xA7BF then Some [0xA7BE] else if c = 0xA7C1 then Some [0xA7C0] else
     if c = 0xA7C3 then Some [0xA7C2] else if c = 0xA7C8 then Some [0xA7C7] else
     if c = 0xA7CA then Some [0xA7C9] else if c = 0xA7D1 then Some [0xA7D0] else
     if c = 0xA7D7 then Some [0xA7D6] else if c = 0xA7D9 then Some [0xA7D8] else
     if c = 0xA7F6 then Some [0xA7F5] else None)"

definition upper_page_AB00 :: "nat \<Rightarrow> nat list option" where
  "upper_page_AB00 c =
    (if c = 0xAB53 then Some [0xA7B3] else if c = 0xAB70 then Some [0x13A0] else
     if c = 0xAB71 then Some [0x13A1] else if c = 0xAB72 then Some [0x13A2] else
     if c = 0xAB73 then Some [0x13A3] else if c = 0xAB74 then Some [0x13A4] else
     if c = 0xAB75 then Some [0x13A5] else if c = 0xAB76 then Some [0x13A6] else
     if c = 0xAB77 then Some [0x13A7] else if c = 0xAB78 then Some [0x13A8] else
     if c = 0xAB79 then Some [0x13A9] else if c = 0xAB7A then Some [0x13AA] else
     if c = 0xAB7B then Some [0x13AB] else if c = 0xAB7C then Some [0x13AC] else
     if c = 0xAB7D then Some [0x13AD] else if c = 0xAB7E then Some [0x13AE] else
     if c = 0xAB7F then Some [0x13AF] else if c = 0xAB80 then Some [0x13B0] else
     if c = 0xAB81 then Some [0x13B1] else if c = 0xAB82 then Some [0x13B2] else
     if c = 0xAB83 then Some [0x13B3] else if c = 0xAB84 then Some [0x13B4] else
     if c = 0xAB85 then Some [0x13B5] else if c = 0xAB86 then Some [0x13B6] else
     if c = 0xAB87 then Some [0x13B7] else if c = 0xAB88 then Some [0x13B8] else
     if c = 0xAB89 then Some [0x13B9] else if c = 0xAB8A then Some [0x13BA] else
     if c = 0xAB8B then Some [0x13BB] else if c = 0xAB8C then Some [0x13BC] else
     if c = 0xAB8D then Some [0x13BD] else if c = 0xAB8E then Some [0x13BE] else
     if c = 0xAB8F then Some [0x13BF] else if c = 0xAB90 then Some [0x13C0] else
     if c = 0xAB91 then Some [0x13C1] else if c = 0xAB92 then Some [0x13C2] else
     if c = 0xAB93 then Some [0x13C3] else if c = 0xAB94 then Some [0x13C4] else
     if c = 0xAB95 then Some [0x13C5] else if c = 0xAB96 then Some [0x13C6] else
     if c = 0xAB97 then Some [0x13C7] else if c = 0xAB98 then Some [0x13C8] else
     if c = 0xAB99 then Some [0x13C9] else if c = 0xAB9A then Some [0x13CA] else
     if c = 0xAB9B then Some [0x13CB] else if c = 0xAB9C then Some [0x13CC] else
     if c = 0xAB9D then Some [0x13CD] else if c = 0xAB9E then Some [0x13CE] else
     if c = 0xAB9F then Some [0x13CF] else if c = 0xABA0 then Some [0x13D0] else
     if c = 0xABA1 then Some [0x13D1] else if c = 0xABA2 then Some [0x13D2] else
     if c = 0xABA3 then Some [0x13D3] else if c = 0xABA4 then Some [0x13D4] else
     if c = 0xABA5 then Some [0x13D5] else if c = 0xABA6 then Some [0x13D6] else
     if c = 0xABA7 then Some [0x13D7] else if c = 0xABA8 then Some [0x13D8] else
     if c = 0xABA9 then Some [0x13D9] else if c = 0xABAA then Some [0x13DA] else
     if c = 0xABAB then Some [0x13DB] else if c = 0xABAC then Some [0x13DC] else
     if c = 0xABAD then Some [0x13DD] else if c = 0xABAE then Some [0x13DE] else
     if c = 0xABAF then Some [0x13DF] else if c = 0xABB0 then Some [0x13E0] else
     if c = 0xABB1 then Some [0x13E1] else if c = 0xABB2 then Some [0x13E2] else
     if c = 0xABB3 then Some [0x13E3] else if c = 0xABB4 then Some [0x13E4] else
     if c = 0xABB5 then Some [0x13E5] else if c = 0xABB6 then Some [0x13E6] else
     if c = 0xABB7 then Some [0x13E7] else if c = 0xABB8 then Some [0x13E8] else
     if c = 0xABB9 then Some [0x13E9] else if c = 0xABBA then Some [0x13EA] else
     if c = 0xABBB then Some [0x13EB] else if c = 0xABBC then Some [0x13EC] else
     if c = 0xABBD then Some [0x13ED] else if c = 0xABBE then Some [0x13EE] else
     if c = 0xABBF then Some [0x13EF] else None)"

definition upper_page_FB00 :: "nat \<Rightarrow> nat list option" where
  "upper_page_FB00 c =
    (if c = 0xFB00 then Some [0x46, 0x46] else if c = 0xFB01 then Some [0x46, 0x49] else
     if c = 0xFB02 then Some [0x46, 0x4C] else if c = 0xFB03 then Some [0x46, 0x46, 0x49] else
     if c = 0xFB04 then Some [0x46, 0x46, 0x4C] else if c = 0xFB05 then Some [0x53, 0x54] else
     if c = 0xFB06 then Some [0x53, 0x54] else if c = 0xFB13 then Some [0x544, 0x546] else
     if c = 0xFB14 then Some [0x544, 0x535] else if c = 0xFB15 then Some [0x544, 0x53B] else
     if c = 0xFB16 then Some [0x54E, 0x546] else if c = 0xFB17 then Some [0x544, 0x53D] else
     None)"

definition upper_page_FF00 :: "nat \<Rightarrow> nat list option" where
  "upper_page_FF00 c =
    (if c = 0xFF41 then Some [0xFF21] else if c = 0xFF42 then Some [0xFF22] else
     if c = 0xFF43 then Some [0xFF23] else if c = 0xFF44 then Some [0xFF24] else
     if c = 0xFF45 then Some [0xFF25] else if c = 0xFF46 then Some [0xFF26] else
     if c = 0xFF47 then Some [0xFF27] else if c = 0xFF48 then Some [0xFF28] else
     if c = 0xFF49 then Some [0xFF29] else if c = 0xFF4A then Some [0xFF2A] else
     if c = 0xFF4B then Some [0xFF2B] else if c = 0xFF4C then Some [0xFF2C] else
     if c = 0xFF4D then Some [0xFF2D] else if c = 0xFF4E then Some [0xFF2E] else
     if c = 0xFF4F then Some [0xFF2F] else if c = 0xFF50 then Some [0xFF30] else
     if c = 0xFF51 then Some [0xFF31] else if c = 0xFF52 then Some [0xFF32] else
     if c = 0xFF53 then Some [0xFF33] else if c = 0xFF54 then Some [0xFF34] else
     if c = 0xFF55 then Some [0xFF35] else if c = 0xFF56 then Some [0xFF36] else
     if c = 0xFF57 then Some [0xFF37] else if c = 0xFF58 then Some [0xFF38] else
     if c = 0xFF59 then Some [0xFF39] else if c = 0xFF5A then Some [0xFF3A] else None)"

definition upper_page_10400 :: "nat \<Rightarrow> nat list option" where
  "upper_page_10400 c =
    (if c = 0x10428 then Some [0x10400] else if c = 0x10429 then Some [0x10401] else
     if c = 0x1042A then Some [0x10402] else if c = 0x1042B then Some [0x10403] else
     if c = 0x1042C then Some [0x10404] else if c = 0x1042D then Some [0x10405] else
     if c = 0x1042E then Some [0x10406] else if c = 0x1042F then Some [0x10407] else
     if c = 0x10430 then Some [0x10408] else if c = 0x10431 then Some [0x10409] else
     if c = 0x10432 then Some [0x1040A] else if c = 0x10433 then Some [0x1040B] else
     if c = 0x10434 then Some [0x1040C] else if c = 0x10435 then Some [0x1040D] else
     if c = 0x10436 then Some [0x1040E] else if c = 0x10437 then Some [0x1040F] else
     if c = 0x10438 then Some [0x10410] else if c = 0x10439 then Some [0x10411] else
     if c = 0x1043A then Some [0x10412] else if c = 0x1043B then Some [0x10413] else
     if c = 0x1043C then Some [0x10414] else if c = 0x1043D then Some [0x10415] else
     if c = 0x1043E then Some [0x10416] else if c = 0x1043F then Some [0x10417] else
     if c = 0x10440 then Some [0x10418] else if c = 0x10441 then Some [0x10419] else
     if c = 0x10442 then Some [0x1041A] else if c = 0x10443 then Some [0x1041B] else
     if c = 0x10444 then Some [0x1041C] else if c = 0x10445 then Some [0x1041D] else
     if c = 0x10446 then Some [0x1041E] else if c = 0x10447 then Some [0x1041F] else
     if c = 0x10448 then Some [0x10420] else if c = 0x10449 then Some [0x10421] else
     if c = 0x1044A then Some [0x10422] else if c = 0x1044B then Some [0x10423] else
     if c = 0x1044C then Some [0x10424] else if c = 0x1044D then Some [0x10425] else
     if c = 0x1044E then Some [0x10426] else if c = 0x1044F then Some [0x10427] else
     if c = 0x104D8 then Some [0x104B0] else if c = 0x104D9 then Some [0x104B1] else
     if c = 0x104DA then Some [0x104B2] else if c = 0x104DB then Some [0x104B3] else
     if c = 0x104DC then Some [0x104B4] else if c = 0x104DD then Some [0x104B5] else
     if c = 0x104DE then Some [0x104B6] else if c = 0x104DF then Some [0x104B7] else
     if c = 0x104E0 then Some [0x104B8] else if c = 0x104E1 then Some [0x104B9] else
     if c = 0x104E2 then Some [0x104BA] else if c = 0x104E3 then Some [0x104BB] else
     if c = 0x104E4 then Some [0x104BC] else if c = 0x104E5 then Some [0x104BD] else
     if c = 0x104E6 then Some [0x104BE] else if c = 0x104E7 then Some [0x104BF] else
     if c = 0x104E8 then Some [0x104C0] else if c = 0x104E9 then Some [0x104C1] else
     if c = 0x104EA then Some [0x104C2] else if c = 0x104EB then Some [0x104C3] else
     if c = 0x104EC then Some [0x104C4] else if c = 0x104ED then Some [0x104C5] else
     if c = 0x104EE then Some [0x104C6] else if c = 0x104EF then Some [0x104C7] else
     if c = 0x104F0 then Some [0x104C8] else if c = 0x104F1 then Some [0x104C9] else
     if c = 0x104F2 then Some [0x104CA] else if c = 0x104F3 then Some [0x104CB] else
     if c = 0x104F4 then Some [0x104CC] else if c = 0x104F5 then Some [0x104CD] else
     if c = 0x104F6 then Some [0x104CE] else if c = 0x104F7 then Some [0x104CF] else
     if c = 0x104F8 then Some [0x104D0] else if c = 0x104F9 then Some [0x104D1] else
     if c = 0x104FA then Some [0x104D2] else if c = 0x104FB then Some [0x104D3] else None)"

definition upper_page_10500 :: "nat \<Rightarrow> nat list option" where
  "upper_page_10500 c =
    (if c = 0x10597 then Some [0x10570] else if c = 0x10598 then Some [0x10571] else
     if c = 0x10599 then Some [0x10572] else if c = 0x1059A then Some [0x10573] else
     if c = 0x1059B then Some [0x10574] else if c = 0x1059C then Some [0x10575] else
     if c = 0x1059D then Some [0x10576] else if c = 0x1059E then Some [0x10577] else
     if c = 0x1059F then Some [0x10578] else if c = 0x105A0 then Some [0x10579] else
     if c = 0x105A1 then Some [0x1057A] else if c = 0x105A3 then Some [0x1057C] else
     if c = 0x105A4 then Some [0x1057D] else if c = 0x105A5 then Some [0x1057E] else
     if c = 0x105A6 then Some [0x1057F] else if c = 0x105A7 then Some [0x10580] else
     if c = 0x105A8 then Some [0x10581] else if c = 0x105A9 then Some [0x10582] else
     if c = 0x105AA then Some [0x10583] else if c = 0x105AB then Some [0x10584] else
     if c = 0x105AC then Some [0x10585] else if c = 0x105AD then Some [0x10586] else
     if c = 0x105AE then Some [0x10587] else if c = 0x105AF then Some [0x10588] else
     if c = 0x105B0 then Some [0x10589] else if c = 0x105B1 then Some [0x1058A] else
     if c = 0x105B3 then Some [0x1058C] else if c = 0x105B4 then Some [0x1058D] else
     if c = 0x105B5 then Some [0x1058E] else if c = 0x105B6 then Some [0x1058F] else
     if c = 0x105B7 then Some [0x10590] else if c = 0x105B8 then Some [0x10591] else
     if c = 0x105B9 then Some [0x10592] else if c = 0x105BB then Some [0x10594] else
     if c = 0x105BC then Some [0x10595] else None)"

definition upper_page_10C00 :: "nat \<Rightarrow> nat list option" where
  "upper_page_10C00 c =
    (if c = 0x10CC0 then Some [0x10C80] else if c = 0x10CC1 then Some [0x10C81] else
     if c = 0x10CC2 then Some [0x10C82] else if c = 0x10CC3 then Some [0x10C83] else
     if c = 0x10CC4 then Some [0x10C84] else if c = 0x10CC5 then Some [0x10C85] else
     if c = 0x10CC6 then Some [0x10C86] else if c = 0x10CC7 then Some [0x10C87] else
     if c = 0x10CC8 then Some [0x10C88] else if c = 0x10CC9 then Some [0x10C89] else
     if c = 0x10CCA then Some [0x10C8A] else if c = 0x10CCB then Some [0x10C8B] else
     if c = 0x10CCC then Some [0x10C8C] else if c = 0x10CCD then Some [0x10C8D] else
     if c = 0x10CCE then Some [0x10C8E] else if c = 0x10CCF then Some [0x10C8F] else
     if c = 0x10CD0 then Some [0x10C90] else if c = 0x10CD1 then Some [0x10C91] else
     if c = 0x10CD2 then Some [0x10C92] else if c = 0x10CD3 then Some [0x10C93] else
     if c = 0x10CD4 then Some [0x10C94] else if c = 0x10CD5 then Some [0x10C95] else
     if c = 0x10CD6 then Some [0x10C96] else if c = 0x10CD7 then Some [0x10C97] else
     if c = 0x10CD8 then Some [0x10C98] else if c = 0x10CD9 then Some [0x10C99] else
     if c = 0x10CDA then Some [0x10C9A] else if c = 0x10CDB then Some [0x10C9B] else
     if c = 0x10CDC then Some [0x10C9C] else if c = 0x10CDD then Some [0x10C9D] else
     if c = 0x10CDE then Some [0x10C9E] else if c = 0x10CDF then Some [0x10C9F] else
     if c = 0x10CE0 then Some [0x10CA0] else if c = 0x10CE1 then Some [0x10CA1] else
     if c = 0x10CE2 then Some [0x10CA2] else if c = 0x10CE3 then Some [0x10CA3] else
     if c = 0x10CE4 then Some [0x10CA4] else if c = 0x10CE5 then Some [0x10CA5] else
     if c = 0x10CE6 then Some [0x10CA6] else if c = 0x10CE7 then Some [0x10CA7] else
     if c = 0x10CE8 then Some [0x10CA8] else if c = 0x10CE9 then Some [0x10CA9] else
     if c = 0x10CEA then Some [0x10CAA] else if c = 0x10CEB then Some [0x10CAB] else
     if c = 0x10CEC then Some [0x10CAC] else if c = 0x10CED then Some [0x10CAD] else
     if c = 0x10CEE then Some [0x10CAE] else if c = 0x10CEF then Some [0x10CAF] else
     if c = 0x10CF0 then Some [0x10CB0] else if c = 0x10CF1 then Some [0x10CB1] else
     if c = 0x10CF2 then Some [0x10CB2] else None)"

definition upper_page_11800 :: "nat \<Rightarrow> nat list option" where
  "upper_page_11800 c =
    (if c = 0x118C0 then Some [0x118A0] else if c = 0x118C1 then Some [0x118A1] else
     if c = 0x118C2 then Some [0x118A2] else if c = 0x118C3 then Some [0x118A3] else
     if c = 0x118C4 then Some [0x118A4] else if c = 0x118C5 then Some [0x118A5] else
     if c = 0x118C6 then Some [0x118A6] else if c = 0x118C7 then Some [0x118A7] else
     if c = 0x118C8 then Some [0x118A8] else if c = 0x118C9 then Some [0x118A9] else
     if c = 0x118CA then Some [0x118AA] else if c = 0x118CB then Some [0x118AB] else
     if c = 0x118CC then Some [0x118AC] else if c = 0x118CD then Some [0x118AD] else
     if c = 0x118CE then Some [0x118AE] else if c = 0x118CF then Some [0x118AF] else
     if c = 0x118D0 then Some [0x118B0] else if c = 0x118D1 then Some [0x118B1] else
     if c = 0x118D2 then Some [0x118B2] else if c = 0x118D3 then Some [0x118B3] else
     if c = 0x118D4 then Some [0x118B4] else if c = 0x118D5 then Some [0x118B5] else
     if c = 0x118D6 then Some [0x118B6] else if c = 0x118D7 then Some [0x118B7] else
     if c = 0x118D8 then Some [0x118B8] else if c = 0x118D9 then Some [0x118B9] else
     if c = 0x118DA then Some [0x118BA] else if c = 0x118DB then Some [0x118BB] else
     if c = 0x118DC then Some [0x118BC] else if c = 0x118DD then Some [0x118BD] else
     if c = 0x118DE then Some [0x118BE] else if c = 0x118DF then Some [0x118BF] else None)"

definition upper_page_16E00 :: "nat \<Rightarrow> nat list option" where
  "upper_page_16E00 c =
    (if c = 0x16E60 then Some [0x16E40] else if c = 0x16E61 then Some [0x16E41] else
     if c = 0x16E62 then Some [0x16E42] else if c = 0x16E63 then Some [0x16E43] else
     if c = 0x16E64 then Some [0x16E44] else if c = 0x16E65 then Some [0x16E45] else
     if c = 0x16E66 then Some [0x16E46] else if c = 0x16E67 then Some [0x16E47] else
     if c = 0x16E68 then Some [0x16E48] else if c = 0x16E69 then Some [0x16E49] else
     if c = 0x16E6A then Some [0x16E4A] else if c = 0x16E6B then Some [0x16E4B] else
     if c = 0x16E6C then Some [0x16E4C] else if c = 0x16E6D then Some [0x16E4D] else
     if c = 0x16E6E then Some [0x16E4E] else if c = 0x16E6F then Some [0x16E4F] else
     if c = 0x16E70 then Some [0x16E50] else if c = 0x16E71 then Some [0x16E51] else
     if c = 0x16E72 then Some [0x16E52] else if c = 0x16E73 then Some [0x16E53] else
     if c = 0x16E74 then Some [0x16E54] else if c = 0x16E75 then Some [0x16E55] else
     if c = 0x16E76 then Some [0x16E56] else if c = 0x16E77 then Some [0x16E57] else
     if c = 0x16E78 then Some [0x16E58] else if c = 0x16E79 then Some [0x16E59] else
     if c = 0x16E7A then Some [0x16E5A] else if c = 0x16E7B then Some [0x16E5B] else
     if c = 0x16E7C then Some [0x16E5C] else if c = 0x16E7D then Some [0x16E5D] else
     if c = 0x16E7E then Some [0x16E5E] else if c = 0x16E7F then Some [0x16E5F] else None)"

definition upper_page_1E900 :: "nat \<Rightarrow> nat list option" where
  "upper_page_1E900 c =
    (if c = 0x1E922 then Some [0x1E900] else if c = 0x1E923 then Some [0x1E901] else
     if c = 0x1E924 then Some [0x1E902] else if c = 0x1E925 then Some [0x1E903] else
     if c = 0x1E926 then Some [0x1E904] else if c = 0x1E927 then Some [0x1E905] else
     if c = 0x1E928 then Some [0x1E906] else if c = 0x1E929 then Some [0x1E907] else
     if c = 0x1E92A then Some [0x1E908] else if c = 0x1E92B then Some [0x1E909] else
     if c = 0x1E92C then Some [0x1E90A] else if c = 0x1E92D then Some [0x1E90B] else
     if c = 0x1E92E then Some [0x1E90C] else if c = 0x1E92F then Some [0x1E90D] else
     if c = 0x1E930 then Some [0x1E90E] else if c = 0x1E931 then Some [0x1E90F] else
     if c = 0x1E932 then Some [0x1E910] else if c = 0x1E933 then Some [0x1E911] else
     if c = 0x1E934 then Some [0x1E912] else if c = 0x1E935 then Some [0x1E913] else
     if c = 0x1E936 then Some [0x1E914] else if c = 0x1E937 then Some [0x1E915] else
     if c = 0x1E938 then Some [0x1E916] else if c = 0x1E939 then Some [0x1E917] else
     if c = 0x1E93A then Some [0x1E918] else if c = 0x1E93B then Some [0x1E919] else
     if c = 0x1E93C then Some [0x1E91A] else if c = 0x1E93D then Some [0x1E91B] else
     if c = 0x1E93E then Some [0x1E91C] else if c = 0x1E93F then Some [0x1E91D] else
     if c = 0x1E940 then Some [0x1E91E] else if c = 0x1E941 then Some [0x1E91F] else
     if c = 0x1E942 then Some [0x1E920] else if c = 0x1E943 then Some [0x1E921] else None)"

definition upper_non_ascii :: "nat \<Rightarrow> nat list option" where
  "upper_non_ascii c =
    (let p = c div 0x100 in
     if p = 0x0 then upper_page_0000 c else if p = 0x1 then upper_page_0100 c else
     if p = 0x2 then upper_page_0200 c else if p = 0x3 then upper_page_0300 c else
     if p = 0x4 then upper_page_0400 c else if p = 0x5 then upper_page_0500 c else
     if p = 0x10 then upper_page_1000 c else if p = 0x13 then upper_page_1300 c else
     if p = 0x1C then upper_page_1C00 c else if p = 0x1D then upper_page_1D00 c else
     if p = 0x1E then upper_page_1E00 c else if p = 0x1F then upper_page_1F00 c else
     if p = 0x21 then upper_page_2100 c else if p = 0x24 then upper_page_2400 c else
     if p = 0x2C then upper_page_2C00 c else if p = 0x2D then upper_page_2D00 c else
     if p = 0xA6 then upper_page_A600 c else if p = 0xA7 then upper_page_A700 c else
     if p = 0xAB then upper_page_AB00 c else if p = 0xFB then upper_page_FB00 c else
     if p = 0xFF then upper_page_FF00 c else if p = 0x104 then upper_page_10400 c else
     if p = 0x105 then upper_page_10500 c else if p = 0x10C then upper_page_10C00 c else
     if p = 0x118 then upper_page_11800 c else if p = 0x16E then upper_page_16E00 c else
     if p = 0x1E9 then upper_page_1E900 c else None)"

text \<open>
  ASCII is mapped directly (\<open>a\<close>..\<open>z\<close> to \<open>A\<close>..\<open>Z\<close>); a code point that the
  mapping does not mention is its own uppercase form.
\<close>

definition full_uppercase :: "nat \<Rightarrow> nat list" where
  "full_uppercase cp =
     (if cp < 0x80 then [if 0x61 \<le> cp \<and> cp \<le> 0x7A then cp - 0x20 else cp]
      else case upper_non_ascii cp of None \<Rightarrow> [cp] | Some us \<Rightarrow> us)"

definition toUpperCase :: "jsstring \<Rightarrow> jsstring" where
  "toUpperCase s = CodePointsToString (concat (map full_uppercase (StringToCodePoints s)))"

subsection \<open>Numbers and template strings\<close>

definition digit_char :: "nat \<Rightarrow> cu" where
  "digit_char d = of_nat (0x30 + d)"

text \<open>\<open>String(n)\<close> for a non-negative integer: its decimal digits.\<close>

fun String_of_nat :: "nat \<Rightarrow> jsstring" where
  "String_of_nat n =
     (if n < 10 then [digit_char n] else String_of_nat (n div 10) @ [digit_char (n mod 10)])"

declare String_of_nat.simps [simp del]

text \<open>\<open>`${ch}`\<close> for \<open>ch = s[i]\<close>: the character, or the text \<open>undefined\<close>.\<close>

definition template_char :: "cu option \<Rightarrow> jsstring" where
  "template_char ch = (case ch of None \<Rightarrow> js ''undefined'' | Some c \<Rightarrow> [c])"

fun join :: "jsstring \<Rightarrow> jsstring list \<Rightarrow> jsstring" where
  "join sep [] = []"
| "join sep [x] = x"
| "join sep (x # y # r) = x @ sep @ join sep (y # r)"

datatype error = Error jsstring

section \<open>Constants of the validator\<close>

definition VIN_LENGTH :: nat where
  "VIN_LENGTH = 17"

text \<open>\<open>VIN_REGEX = /^[A-HJ-NPR-Z0-9]{17}$/\<close>: the character class, then the whole test.\<close>

definition VIN_REGEX_class :: "cu \<Rightarrow> bool" where
  "VIN_REGEX_class c =
     ((cu_of CHR ''A'' \<le> c \<and> c \<le> cu_of CHR ''H'') \<or>
      (cu_of CHR ''J'' \<le> c \<and> c \<le> cu_of CHR ''N'') \<or>
      c = cu_of CHR ''P'' \<or>
      (cu_of CHR ''R'' \<le> c \<and> c \<le> cu_of CHR ''Z'') \<or>
      (cu_of CHR ''0'' \<le> c \<and> c \<le> cu_of CHR ''9''))"

definition VIN_REGEX_test :: "jsstring \<Rightarrow> bool" where
  "VIN_REGEX_test s = (length s = 17 \<and> list_all VIN_REGEX_class s)"

definition WEIGHTS :: "nat list" where
  "WEIGHTS = [8, 7, 6, 5, 4, 3, 2, 10, 0, 9, 8, 7, 6, 5, 4, 3, 2]"

definition MAP_entries :: "(char \<times> nat) list" where
  "MAP_entries =
     [(CHR ''0'', 0), (CHR ''1'', 1), (CHR ''2'', 2), (CHR ''3'', 3), (CHR ''4'', 4),
      (CHR ''5'', 5), (CHR ''6'', 6), (CHR ''7'', 7), (CHR ''8'', 8), (CHR ''9'', 9),
      (CHR ''A'', 1), (CHR ''B'', 2), (CHR ''C'', 3), (CHR ''D'', 4), (CHR ''E'', 5),
      (CHR ''F'', 6), (CHR ''G'', 7), (CHR ''H'', 8),
      (CHR ''J'', 1), (CHR ''K'', 2), (CHR ''L'', 3), (CHR ''M'', 4), (CHR ''N'', 5),
      (CHR ''P'', 7), (CHR ''R'', 9),
      (CHR ''S'', 2), (CHR ''T'', 3), (CHR ''U'', 4), (CHR ''V'', 5), (CHR ''W'', 6),
      (CHR ''X'', 7), (CHR ''Y'', 8), (CHR ''Z'', 9)]"

text \<open>
  \<open>MAP[ch]\<close>: the own properties of the object literal are one-character keys, and no
  inherited property of an object has a one-character name or the name \<open>undefined\<close>, so
  every other key reads as \<open>undefined\<close> (here \<open>None\<close>).
\<close>

definition MAP :: "cu \<Rightarrow> nat option" where
  "MAP c = map_of (map (\<lambda>(k, n). (cu_of k, n)) MAP_entries) c"

definition MAP_get :: "cu option \<Rightarrow> nat option" where
  "MAP_get ch = (case ch of None \<Rightarrow> None | Some c \<Rightarrow> MAP c)"

section \<open>normalizeVIN\<close>

definition normalizeVIN :: "jsstring \<Rightarrow> jsstring" where
  "normalizeVIN input = toUpperCase (trim (replace_separators input))"

section \<open>computeCheckDigit\<close>

definition invalid_character_message :: "cu option \<Rightarrow> nat \<Rightarrow> jsstring" where
  "invalid_character_message ch pos =
     js ''Invalid character '' @ [cu_of (CHR 0x27)] @ template_char ch @ [cu_of (CHR 0x27)] @
     js '' at position '' @ String_of_nat pos"

text \<open>The \<open>for\<close> loop of \<open>computeCheckDigit\<close>, from index \<open>i\<close>, with \<open>acc\<close> for the variable \<open>sum\<close>.\<close>

function check_digit_loop :: "jsstring \<Rightarrow> nat \<Rightarrow> nat \<Rightarrow> error + nat" where
  "check_digit_loop v i acc =
     (if i < VIN_LENGTH then
        (let ch = char_at v i in
         case MAP_get ch of
           None \<Rightarrow> Inl (Error (invalid_character_message ch (i + 1)))
         | Some val \<Rightarrow> check_digit_loop v (i + 1) (acc + val * WEIGHTS ! i))
      else Inr acc)"
  by pat_completeness auto
termination
  by (relation "measure (\<lambda>(v, i, acc). VIN_LENGTH - i)") auto

declare check_digit_loop.simps [simp del]

definition computeCheckDigit :: "jsstring \<Rightarrow> error + jsstring" where
  "computeCheckDigit vin =
     (let v = toUpperCase vin in
      case check_digit_loop v 0 0 of
        Inl e \<Rightarrow> Inl e
      | Inr acc \<Rightarrow>
          (let remainder = acc mod 11
           in Inr (if remainder = 10 then js ''X'' else String_of_nat remainder)))"

section \<open>validateVIN\<close>

datatype VinErrorCode = INVALID_LENGTH | INVALID_CHARACTERS | INVALID_CHECK_DIGIT

text \<open>
  The body of the \<open>try\<close> block: the new values of \<open>expected\<close> and \<open>errors\<close>, or the
  exception that \<open>computeCheckDigit\<close> threw (nothing is assigned before it).
\<close>

definition try_block :: "jsstring \<Rightarrow> VinErrorCode list \<Rightarrow> error + jsstring \<times> VinErrorCode list" where
  "try_block vin errors =
     (if length vin = VIN_LENGTH then
        (case computeCheckDigit vin of
           Inl e \<Rightarrow> Inl e
         | Inr expected \<Rightarrow>
             (let actual = map_option (\<lambda>c. [c]) (char_at vin 8) in
              if VIN_REGEX_test vin \<and> actual \<noteq> Some expected
              then Inr (expected, errors @ [INVALID_CHECK_DIGIT])
              else Inr (expected, errors)))
      else Inr (js ''N/A'', errors))"

record ValidationResult =
  isValid :: bool
  vin :: jsstring
  errors :: "VinErrorCode list"
  checkDigit :: jsstring
  expectedCheckDigit :: jsstring

text \<open>
  \<open>validateVIN\<close>; the \<open>catch\<close> clause keeps \<open>expected\<close> and \<open>errors\<close> as they were
  before the \<open>try\<close> block. The result is \<open>Inr\<close> of the returned object; \<open>Inl\<close> would be
  an exception leaving the function.
\<close>

definition validateVIN :: "jsstring \<Rightarrow> error + ValidationResult" where
  "validateVIN input =
     (let vin = normalizeVIN input;
          errors = [];
          errors = (if length vin \<noteq> VIN_LENGTH then errors @ [INVALID_LENGTH] else errors);
          errors = (if \<not> VIN_REGEX_test vin then errors @ [INVALID_CHARACTERS] else errors);
          (expected, errors) =
             (case try_block vin errors of
                Inl e \<Rightarrow> (js ''N/A'', errors)
              | Inr st \<Rightarrow> st)
      in Inr \<lparr>isValid = (length errors = 0),
              vin = vin,
              errors = errors,
              checkDigit = (case char_at vin 8 of None \<Rightarrow> js '''' | Some c \<Rightarrow> [c]),
              expectedCheckDigit = expected\<rparr>)"

section \<open>isValidVIN and assertVIN\<close>

definition isValidVIN :: "jsstring \<Rightarrow> error + bool" where
  "isValidVIN input =
     (case validateVIN input of Inl e \<Rightarrow> Inl e | Inr res \<Rightarrow> Inr (isValid res))"

definition code_name :: "VinErrorCode \<Rightarrow> jsstring" where
  "code_name c =
     (case c of
        INVALID_LENGTH \<Rightarrow> js ''INVALID_LENGTH''
      | INVALID_CHARACTERS \<Rightarrow> js ''INVALID_CHARACTERS''
      | INVALID_CHECK_DIGIT \<Rightarrow> js ''INVALID_CHECK_DIGIT'')"

definition assertVIN :: "jsstring \<Rightarrow> error + jsstring" where
  "assertVIN input =
     (case validateVIN input of
        Inl e \<Rightarrow> Inl e
      | Inr res \<Rightarrow>
          if \<not> isValid res then
            (let detail = join (js '', '') (map code_name (errors res))
             in Inl (Error (js ''Invalid VIN: '' @ detail @ js '' (expected check digit: '' @
                            expectedCheckDigit res @ js '')'')))
          else Inr (vin res))"

section \<open>Auxiliary facts\<close>

lemma cu_of_simps:
  "cu_of CHR ''A'' = 0x41" "cu_of CHR ''H'' = 0x48" "cu_of CHR ''J'' = 0x4A"
  "cu_of CHR ''N'' = 0x4E" "cu_of CHR ''P'' = 0x50" "cu_of CHR ''R'' = 0x52"
  "cu_of CHR ''Z'' = 0x5A" "cu_of CHR ''0'' = 0x30" "cu_of CHR ''9'' = 0x39"
  by (simp_all add: cu_of_def)

lemma VIN_REGEX_class_unat:
  "VIN_REGEX_class c \<longleftrightarrow>
     (0x41 \<le> unat c \<and> unat c \<le> 0x48) \<or> (0x4A \<le> unat c \<and> unat c \<le> 0x4E) \<or> unat c = 0x50 \<or>
     (0x52 \<le> unat c \<and> unat c \<le> 0x5A) \<or> (0x30 \<le> unat c \<and> unat c \<le> 0x39)"
  by (simp add: VIN_REGEX_class_def cu_of_simps word_le_nat_alt word_unat_eq_iff)

lemma MAP_unat: "MAP c = map_of (map (\<lambda>(k, n). (of_char k, n)) MAP_entries) (unat c)"
  unfolding MAP_def MAP_entries_def
  by (simp add: cu_of_def word_unat_eq_iff)

lemma MAP_dom: "VIN_REGEX_class c \<longleftrightarrow> MAP c \<noteq> None"
  unfolding MAP_unat VIN_REGEX_class_unat MAP_entries_def
  apply simp
  apply arith
  done

lemma MAP_le9: "MAP c = Some n \<Longrightarrow> n \<le> 9"
  unfolding MAP_unat MAP_entries_def
  by (simp split: if_splits)

subsection \<open>toUpperCase on ASCII\<close>

lemma StringToCodePoints_no_lead:
  "list_all (\<lambda>c. \<not> is_leading_surrogate c) s \<Longrightarrow> StringToCodePoints s = map unat s"
  by (induction s rule: StringToCodePoints.induct) simp_all

lemma ascii_not_lead: "unat c < 0x80 \<Longrightarrow> \<not> is_leading_surrogate c"
  by (simp add: is_leading_surrogate_def)

lemma encode_upper_ascii:
  "unat (c::cu) < 0x80 \<Longrightarrow>
   CodePointsToString (full_uppercase (unat c)) =
     [if 0x61 \<le> unat c \<and> unat c \<le> 0x7A then c - 0x20 else c]"
  by (auto simp add: CodePointsToString_def full_uppercase_def UTF16EncodeCodePoint_def)

lemma CodePointsToString_append:
  "CodePointsToString (xs @ ys) = CodePointsToString xs @ CodePointsToString ys"
  by (simp add: CodePointsToString_def)

lemma toUpperCase_ascii:
  assumes "list_all (\<lambda>c. unat c < 0x80) s"
  shows "toUpperCase s = map (\<lambda>c. if 0x61 \<le> unat c \<and> unat c \<le> 0x7A then c - 0x20 else c) s"
proof -
  have "list_all (\<lambda>c. \<not> is_leading_surrogate c) s"
    using assms by (induction s) (simp_all add: ascii_not_lead)
  then have dec: "StringToCodePoints s = map unat s"
    by (rule StringToCodePoints_no_lead)
  have "CodePointsToString (concat (map full_uppercase (map unat s))) =
        map (\<lambda>c. if 0x61 \<le> unat c \<and> unat c \<le> 0x7A then c - 0x20 else c) s"
    using assms
  proof (induction s)
    case Nil
    then show ?case by (simp add: CodePointsToString_def)
  next
    case (Cons c s)
    then show ?case
      by (simp add: CodePointsToString_append encode_upper_ascii del: concat_map_singleton)
  qed
  then show ?thesis by (simp add: toUpperCase_def dec)
qed

lemma toUpperCase_VIN:
  assumes "list_all VIN_REGEX_class s"
  shows "toUpperCase s = s"
proof -
  have a: "list_all (\<lambda>c. unat c < 0x80) s"
    using assms by (induction s) (auto simp: VIN_REGEX_class_unat)
  have "map (\<lambda>c. if 0x61 \<le> unat c \<and> unat c \<le> 0x7A then c - 0x20 else c) s = s"
    using assms by (induction s) (auto simp: VIN_REGEX_class_unat)
  then show ?thesis by (simp add: toUpperCase_ascii [OF a])
qed

subsection \<open>The loop\<close>

lemma check_digit_loop_ok:
  assumes "map MAP v = map Some vals" "length v = 17"
  shows "i \<le> 17 \<Longrightarrow>
         check_digit_loop v i acc = Inr (acc + (\<Sum>j = i..<17. vals ! j * WEIGHTS ! j))"
proof (induction "17 - i" arbitrary: i acc)
  case 0
  then show ?case by (simp add: check_digit_loop.simps VIN_LENGTH_def)
next
  case (Suc n)
  then have i: "i < 17" by simp
  have len: "length vals = 17" using assms by (metis length_map)
  have "MAP (v ! i) = Some (vals ! i)"
    using assms i len by (metis nth_map)
  then have step: "check_digit_loop v i acc = check_digit_loop v (i + 1) (acc + vals ! i * WEIGHTS ! i)"
    using i assms(2)
    by (subst check_digit_loop.simps) (simp add: VIN_LENGTH_def char_at_def MAP_get_def)
  have "check_digit_loop v (i + 1) (acc + vals ! i * WEIGHTS ! i) =
        Inr (acc + vals ! i * WEIGHTS ! i + (\<Sum>j = i + 1..<17. vals ! j * WEIGHTS ! j))"
    using Suc i by (intro Suc.hyps) simp_all
  then show ?case
    using i by (simp add: step sum.atLeast_Suc_lessThan)
qed

lemma check_digit_loop_fail:
  assumes "k < 17" "MAP_get (char_at v k) = None"
  shows "i \<le> k \<Longrightarrow> (\<And>j. i \<le> j \<Longrightarrow> j < k \<Longrightarrow> MAP_get (char_at v j) \<noteq> None) \<Longrightarrow>
         check_digit_loop v i acc = Inl (Error (invalid_character_message (char_at v k) (k + 1)))"
proof (induction "k - i" arbitrary: i acc)
  case 0
  then have "i = k" by simp
  then show ?case
    using assms by (subst check_digit_loop.simps) (simp add: VIN_LENGTH_def)
next
  case (Suc n)
  then have i: "i < k" by simp
  then obtain val where val: "MAP_get (char_at v i) = Some val"
    using Suc.prems(2) [of i] by auto
  have step: "check_digit_loop v i acc = check_digit_loop v (i + 1) (acc + val * WEIGHTS ! i)"
    using i assms(1) val
    by (subst check_digit_loop.simps) (simp add: VIN_LENGTH_def)
  have "check_digit_loop v (i + 1) (acc + val * WEIGHTS ! i) =
        Inl (Error (invalid_character_message (char_at v k) (k + 1)))"
    using Suc i by (intro Suc.hyps) simp_all
  then show ?case by (simp add: step)
qed

lemma check_digit_loop_take:
  assumes "take 17 a = take 17 b"
  shows "check_digit_loop a i acc = check_digit_loop b i acc"
proof (induction "17 - i" arbitrary: i acc)
  case 0
  then show ?case by (simp add: check_digit_loop.simps VIN_LENGTH_def)
next
  case (Suc n)
  then have i: "i < 17" by simp
  have "char_at (take 17 a) i = char_at a i" "char_at (take 17 b) i = char_at b i"
    using i by (simp_all add: char_at_def)
  then have ch: "char_at a i = char_at b i" using assms by simp
  show ?case
  proof (cases "MAP_get (char_at b i)")
    case None
    then show ?thesis
      using i ch by (simp add: check_digit_loop.simps [of a i] check_digit_loop.simps [of b i] VIN_LENGTH_def)
  next
    case (Some val)
    have "check_digit_loop a (i + 1) (acc + val * WEIGHTS ! i) =
          check_digit_loop b (i + 1) (acc + val * WEIGHTS ! i)"
      using Suc i by (intro Suc.hyps) simp_all
    then show ?thesis
      using i ch Some
      by (simp add: check_digit_loop.simps [of a i] check_digit_loop.simps [of b i] VIN_LENGTH_def)
  qed
qed

lemmas eval_defs =
  js_def cu_of_def char_at_def is_white_space_def is_separator_def replace_separators_def
  trim_def is_leading_surrogate_def is_trailing_surrogate_def UTF16SurrogatePairToCodePoint_def
  UTF16EncodeCodePoint_def CodePointsToString_def full_uppercase_def toUpperCase_def
  digit_char_def String_of_nat.simps template_char_def VIN_LENGTH_def VIN_REGEX_class_def
  VIN_REGEX_test_def WEIGHTS_def MAP_entries_def MAP_def MAP_get_def normalizeVIN_def
  invalid_character_message_def check_digit_loop.simps computeCheckDigit_def try_block_def
  validateVIN_def isValidVIN_def code_name_def assertVIN_def Let_def

lemma weighted_sum_zip:
  assumes "length vals = 17"
  shows "(\<Sum>j = 0..<17. vals ! j * WEIGHTS ! j) = sum_list (map2 (*) vals WEIGHTS)"
proof -
  have len: "length (map2 (*) vals WEIGHTS) = 17"
    using assms by (simp add: WEIGHTS_def)
  have "sum_list (map2 (*) vals WEIGHTS) = (\<Sum>j = 0..<17. map2 (*) vals WEIGHTS ! j)"
    using len by (simp add: sum_list_sum_nth)
  also have "\<dots> = (\<Sum>j = 0..<17. vals ! j * WEIGHTS ! j)"
    using assms by (intro sum.cong) (simp_all add: WEIGHTS_def)
  finally show ?thesis by simp
qed

lemma MAP_values_exist:
  assumes "list_all VIN_REGEX_class v"
  shows "\<exists>vals. map MAP v = map Some vals"
  using assms
proof (induction v)
  case Nil
  then show ?case by simp
next
  case (Cons c v)
  then obtain vals where "map MAP v = map Some vals" by auto
  moreover obtain n where "MAP c = Some n" using Cons.prems by (auto simp: MAP_dom)
  ultimately have "map MAP (c # v) = map Some (n # vals)" by simp
  then show ?case by blast
qed

lemma computeCheckDigit_ok:
  assumes "length v = 17" "list_all VIN_REGEX_class v" "map MAP v = map Some vals"
  shows "computeCheckDigit v =
           Inr (if sum_list (map2 (*) vals WEIGHTS) mod 11 = 10 then js ''X''
                else String_of_nat (sum_list (map2 (*) vals WEIGHTS) mod 11))"
proof -
  have len: "length vals = 17" using assms by (metis length_map)
  have "check_digit_loop v 0 0 = Inr (0 + (\<Sum>j = 0..<17. vals ! j * WEIGHTS ! j))"
    using assms by (intro check_digit_loop_ok) simp_all
  then have "check_digit_loop v 0 0 = Inr (sum_list (map2 (*) vals WEIGHTS))"
    by (simp add: weighted_sum_zip [OF len])
  then show ?thesis
    by (simp add: computeCheckDigit_def toUpperCase_VIN [OF assms(2)])
qed

lemma check_char_cases:
  assumes "r < 11"
  shows "\<exists>d. d \<in> set (js ''0123456789X'') \<and>
      (if r = 10 then js ''X'' else String_of_nat r) = [d]"
proof -
  have "r = 0 \<or> r = 1 \<or> r = 2 \<or> r = 3 \<or> r = 4 \<or> r = 5 \<or> r = 6 \<or> r = 7 \<or> r = 8 \<or> r = 9 \<or> r = 10"
    using assms by arith
  then show ?thesis
    by (elim disjE) (simp_all add: js_def cu_of_def String_of_nat.simps digit_char_def)
qed

lemma computeCheckDigit_succeeds:
  assumes "length v = 17" "list_all VIN_REGEX_class v"
  shows "\<exists>d. computeCheckDigit v = Inr [d]"
proof -
  obtain vals where vals: "map MAP v = map Some vals"
    using MAP_values_exist [OF assms(2)] by blast
  have "sum_list (map2 (*) vals WEIGHTS) mod 11 < 11" by simp
  from check_char_cases [OF this] computeCheckDigit_ok [OF assms vals]
  show ?thesis by auto
qed

lemma VIN_REGEX_test_iff: "VIN_REGEX_test n \<longleftrightarrow> length n = 17 \<and> list_all VIN_REGEX_class n"
  by (simp add: VIN_REGEX_test_def)

lemma validateVIN_unfold:
  "validateVIN x =
     Inr \<lparr>isValid =
            ((if length (normalizeVIN x) \<noteq> 17 then [INVALID_LENGTH] else []) @
             (if \<not> VIN_REGEX_test (normalizeVIN x) then [INVALID_CHARACTERS] else []) @
             (if VIN_REGEX_test (normalizeVIN x) \<and>
                 (\<exists>d. computeCheckDigit (normalizeVIN x) = Inr d \<and>
                      map_option (\<lambda>c. [c]) (char_at (normalizeVIN x) 8) \<noteq> Some d)
              then [INVALID_CHECK_DIGIT] else []) = []),
          vin = normalizeVIN x,
          errors =
            (if length (normalizeVIN x) \<noteq> 17 then [INVALID_LENGTH] else []) @
            (if \<not> VIN_REGEX_test (normalizeVIN x) then [INVALID_CHARACTERS] else []) @
            (if VIN_REGEX_test (normalizeVIN x) \<and>
                (\<exists>d. computeCheckDigit (normalizeVIN x) = Inr d \<and>
                     map_option (\<lambda>c. [c]) (char_at (normalizeVIN x) 8) \<noteq> Some d)
             then [INVALID_CHECK_DIGIT] else []),
          checkDigit = (case char_at (normalizeVIN x) 8 of None \<Rightarrow> js '''' | Some c \<Rightarrow> [c]),
          expectedCheckDigit =
            (if length (normalizeVIN x) = 17
             then (case computeCheckDigit (normalizeVIN x) of Inl e \<Rightarrow> js ''N/A'' | Inr d \<Rightarrow> d)
             else js ''N/A'')\<rparr>"
  by (cases "computeCheckDigit (normalizeVIN x)")
     (auto simp add: validateVIN_def try_block_def VIN_LENGTH_def Let_def VIN_REGEX_test_iff)

lemma join_contains:
  "x \<in> set xs \<Longrightarrow> \<exists>p q. join sep xs = p @ x @ q"
proof (induction sep xs rule: join.induct)
  case (1 sep)
  then show ?case by simp
next
  case (2 sep y)
  then have "join sep [y] = [] @ x @ []" by simp
  then show ?case by blast
next
  case (3 sep y z r)
  show ?case
  proof (cases "x = y")
    case True
    then have "join sep (y # z # r) = [] @ x @ (sep @ join sep (z # r))" by simp
    then show ?thesis by blast
  next
    case False
    then have "x \<in> set (z # r)" using 3 by simp
    then obtain p q where "join sep (z # r) = p @ x @ q" using 3 by blast
    then have "join sep (y # z # r) = (y @ sep @ p) @ x @ q" by simp
    then show ?thesis by blast
  qed
qed

section \<open>The claims\<close>

text \<open>
  C1. \<open>validateVIN(x).isValid\<close> is true if and only if the normalized string has length 17,
  every character is in the permitted alphabet, and its 9th character is the result of
  \<open>computeCheckDigit\<close> on the normalized string; and the result is valid exactly when its list
  of errors is empty.
\<close>

theorem validateVIN_isValid_iff:
  "\<exists>r. validateVIN x = Inr r \<and>
       (isValid r \<longleftrightarrow>
          length (normalizeVIN x) = 17 \<and> list_all VIN_REGEX_class (normalizeVIN x) \<and>
          (\<exists>d. char_at (normalizeVIN x) 8 = Some d \<and> computeCheckDigit (normalizeVIN x) = Inr [d])) \<and>
       (isValid r \<longleftrightarrow> errors r = [])"
proof (cases "length (normalizeVIN x) = 17 \<and> list_all VIN_REGEX_class (normalizeVIN x)")
  case True
  then obtain d where d: "computeCheckDigit (normalizeVIN x) = Inr [d]"
    using computeCheckDigit_succeeds by blast
  have "char_at (normalizeVIN x) 8 = Some (normalizeVIN x ! 8)"
    using True by (simp add: char_at_def)
  then show ?thesis
    using True d by (auto simp add: validateVIN_unfold VIN_REGEX_test_iff)
next
  case False
  then show ?thesis
    by (auto simp add: validateVIN_unfold VIN_REGEX_test_iff)
qed

text \<open>
  C4. \<open>validateVIN\<close> records \<open>INVALID_CHARACTERS\<close> exactly when the normalized string is not
  17 characters of the permitted class; the check does not depend on the length check, and a
  string of wrong length that has a forbidden character records both \<open>INVALID_LENGTH\<close> and
  \<open>INVALID_CHARACTERS\<close>.
\<close>

theorem validateVIN_invalid_characters:
  "\<exists>r. validateVIN x = Inr r \<and>
       (INVALID_CHARACTERS \<in> set (errors r) \<longleftrightarrow>
          \<not> (length (normalizeVIN x) = 17 \<and> list_all VIN_REGEX_class (normalizeVIN x))) \<and>
       (length (normalizeVIN x) \<noteq> 17 \<and> \<not> list_all VIN_REGEX_class (normalizeVIN x) \<longrightarrow>
          INVALID_LENGTH \<in> set (errors r) \<and> INVALID_CHARACTERS \<in> set (errors r))"
  by (auto simp add: validateVIN_unfold VIN_REGEX_test_iff)

theorem validateVIN_invalid_characters_witness:
  "length (normalizeVIN (js ''1HGCM82633A0O435'')) \<noteq> 17 \<and>
   \<not> list_all VIN_REGEX_class (normalizeVIN (js ''1HGCM82633A0O435'')) \<and>
   (\<exists>r. validateVIN (js ''1HGCM82633A0O435'') = Inr r \<and>
        INVALID_LENGTH \<in> set (errors r) \<and> INVALID_CHARACTERS \<in> set (errors r))"
proof -
  have n: "normalizeVIN (js ''1HGCM82633A0O435'') = js ''1HGCM82633A0O435''"
    by (simp add: eval_defs)
  have h: "length (normalizeVIN (js ''1HGCM82633A0O435'')) \<noteq> 17 \<and>
           \<not> list_all VIN_REGEX_class (normalizeVIN (js ''1HGCM82633A0O435''))"
    unfolding n by (simp add: eval_defs)
  show ?thesis
    using h validateVIN_invalid_characters [of "js ''1HGCM82633A0O435''"] by blast
qed

text \<open>
  C5. The check digit is evaluated only when the normalized length is 17; when
  \<open>computeCheckDigit\<close> throws, \<open>expectedCheckDigit\<close> is \<open>N/A\<close> and no error is added to the
  charset error; and \<open>INVALID_CHECK_DIGIT\<close> is recorded exactly when the normalized string has
  length 17, passes the charset rule and its 9th character differs from the computed digit.
\<close>

theorem validateVIN_check_digit:
  "\<exists>r. validateVIN x = Inr r \<and>
       (length (normalizeVIN x) \<noteq> 17 \<longrightarrow>
          expectedCheckDigit r = js ''N/A'' \<and> INVALID_CHECK_DIGIT \<notin> set (errors r)) \<and>
       (length (normalizeVIN x) = 17 \<and> (\<exists>e. computeCheckDigit (normalizeVIN x) = Inl e) \<longrightarrow>
          expectedCheckDigit r = js ''N/A'' \<and> errors r = [INVALID_CHARACTERS]) \<and>
       (INVALID_CHECK_DIGIT \<in> set (errors r) \<longleftrightarrow>
          length (normalizeVIN x) = 17 \<and> list_all VIN_REGEX_class (normalizeVIN x) \<and>
          (\<exists>c d. char_at (normalizeVIN x) 8 = Some c \<and>
                 computeCheckDigit (normalizeVIN x) = Inr d \<and> [c] \<noteq> d))"
proof (cases "length (normalizeVIN x) = 17 \<and> list_all VIN_REGEX_class (normalizeVIN x)")
  case True
  then obtain d where d: "computeCheckDigit (normalizeVIN x) = Inr [d]"
    using computeCheckDigit_succeeds by blast
  have "char_at (normalizeVIN x) 8 = Some (normalizeVIN x ! 8)"
    using True by (simp add: char_at_def)
  then show ?thesis
    using True d by (auto simp add: validateVIN_unfold VIN_REGEX_test_iff)
next
  case False
  then show ?thesis
    by (auto simp add: validateVIN_unfold VIN_REGEX_test_iff)
qed

theorem validateVIN_check_digit_witness:
  "(length (normalizeVIN (js ''1HGCM82633A00435'')) \<noteq> 17 \<and>
    (\<exists>r. validateVIN (js ''1HGCM82633A00435'') = Inr r \<and>
         expectedCheckDigit r = js ''N/A'' \<and> INVALID_CHECK_DIGIT \<notin> set (errors r))) \<and>
   (length (normalizeVIN (js ''1HGCM82633A00I352'')) = 17 \<and>
    (\<exists>e. computeCheckDigit (normalizeVIN (js ''1HGCM82633A00I352'')) = Inl e) \<and>
    (\<exists>r. validateVIN (js ''1HGCM82633A00I352'') = Inr r \<and>
         expectedCheckDigit r = js ''N/A'' \<and> errors r = [INVALID_CHARACTERS]))"
proof -
  have n1: "normalizeVIN (js ''1HGCM82633A00435'') = js ''1HGCM82633A00435''"
    by (simp add: eval_defs)
  have h1: "length (normalizeVIN (js ''1HGCM82633A00435'')) \<noteq> 17"
    unfolding n1 by (simp add: js_def)
  have n2: "normalizeVIN (js ''1HGCM82633A00I352'') = js ''1HGCM82633A00I352''"
    by (simp add: eval_defs)
  have c2: "computeCheckDigit (js ''1HGCM82633A00I352'') =
              Inl (Error (js ''Invalid character '' @ [0x27] @ js ''I'' @ [0x27] @ js '' at position 14''))"
    by (simp add: eval_defs)
  have h2: "length (normalizeVIN (js ''1HGCM82633A00I352'')) = 17 \<and>
            (\<exists>e. computeCheckDigit (normalizeVIN (js ''1HGCM82633A00I352'')) = Inl e)"
    unfolding n2 c2 by (simp add: js_def)
  show ?thesis
    using h1 h2 validateVIN_check_digit [of "js ''1HGCM82633A00435''"]
      validateVIN_check_digit [of "js ''1HGCM82633A00I352''"]
    by blast
qed

text \<open>
  C2. \<open>computeCheckDigit\<close> multiplies the transliteration value of each of the 17 positions
  by its weight (position 9 has weight 0), sums, takes the sum modulo 11 and returns \<open>X\<close>
  for 10 and the decimal digit otherwise; on 17 characters of the permitted alphabet it
  terminates, does not throw and returns one character of \<open>0\<close>..\<open>9\<close>, \<open>X\<close>.
\<close>

theorem computeCheckDigit_permitted:
  assumes "length v = 17" and "list_all VIN_REGEX_class v"
  shows "length WEIGHTS = 17 \<and> WEIGHTS ! 8 = 0 \<and>
         (\<exists>vals r d. map MAP v = map Some vals \<and>
            r = sum_list (map2 (*) vals WEIGHTS) mod 11 \<and>
            computeCheckDigit v = Inr (if r = 10 then js ''X'' else [digit_char r]) \<and>
            computeCheckDigit v = Inr [d] \<and> d \<in> set (js ''0123456789X''))"
proof -
  obtain vals where vals: "map MAP v = map Some vals"
    using MAP_values_exist [OF assms(2)] by blast
  define r where "r = sum_list (map2 (*) vals WEIGHTS) mod 11"
  have r: "r < 11" by (simp add: r_def)
  have res: "computeCheckDigit v = Inr (if r = 10 then js ''X'' else String_of_nat r)"
    using computeCheckDigit_ok [OF assms vals] by (simp add: r_def)
  have dig: "r \<noteq> 10 \<Longrightarrow> String_of_nat r = [digit_char r]"
    using r by (simp add: String_of_nat.simps)
  obtain d where d: "d \<in> set (js ''0123456789X'')"
      "(if r = 10 then js ''X'' else String_of_nat r) = [d]"
    using check_char_cases [OF r] by blast
  have "computeCheckDigit v = Inr (if r = 10 then js ''X'' else [digit_char r])"
    using res dig by auto
  moreover have "computeCheckDigit v = Inr [d]"
    using res d by simp
  moreover have "length WEIGHTS = 17 \<and> WEIGHTS ! 8 = 0"
    by (simp add: WEIGHTS_def)
  ultimately show ?thesis
    using vals d(1) r_def by blast
qed

theorem computeCheckDigit_permitted_witness:
  "length (js ''1M8GDM9AXKP042788'') = 17 \<and> list_all VIN_REGEX_class (js ''1M8GDM9AXKP042788'') \<and>
   (\<exists>d. computeCheckDigit (js ''1M8GDM9AXKP042788'') = Inr [d] \<and> d \<in> set (js ''0123456789X''))"
proof -
  have h1: "length (js ''1M8GDM9AXKP042788'') = 17"
    by (simp add: js_def)
  have h2: "list_all VIN_REGEX_class (js ''1M8GDM9AXKP042788'')"
    by (simp add: js_def cu_of_def VIN_REGEX_class_def)
  show ?thesis
    using h1 h2 computeCheckDigit_permitted [OF h1 h2] by blast
qed

text \<open>
  C3, as the specification states it: the letters follow A, J, S to 1; B, K, T to 2;
  C, L, U to 3; D, M, V to 4; E, N, W to 5; F, P, X to 6. The table of the source maps
  S, T, U, V, W one higher, and P and X to 7.
\<close>

theorem MAP_letters_counterexample:
  "MAP (cu_of CHR ''S'') = Some 2 \<and> MAP (cu_of CHR ''T'') = Some 3 \<and>
   MAP (cu_of CHR ''U'') = Some 4 \<and> MAP (cu_of CHR ''V'') = Some 5 \<and>
   MAP (cu_of CHR ''W'') = Some 6 \<and> MAP (cu_of CHR ''P'') = Some 7 \<and>
   MAP (cu_of CHR ''X'') = Some 7 \<and>
   \<not> (map MAP (js ''AJS'') = map Some [1, 1, 1] \<and> map MAP (js ''BKT'') = map Some [2, 2, 2] \<and>
      map MAP (js ''CLU'') = map Some [3, 3, 3] \<and> map MAP (js ''DMV'') = map Some [4, 4, 4] \<and>
      map MAP (js ''ENW'') = map Some [5, 5, 5] \<and> map MAP (js ''FPX'') = map Some [6, 6, 6])"
  by (simp add: MAP_def MAP_entries_def js_def cu_of_def)

text \<open>
  C3, amended: the table is defined on exactly the 33 permitted characters, with values
  from 0 to 9; a digit has its own value, A..H have 1..8, J..N have 1..5, P has 7, R has 9
  and S..Z have 2..9; I, O, Q and every character outside the class have no entry.
\<close>

theorem MAP_table:
  "dom MAP = {c. VIN_REGEX_class c} \<and> card (dom MAP) = 33 \<and> ran MAP \<subseteq> {0..9} \<and>
   map MAP (js ''0123456789'') = map Some [0, 1, 2, 3, 4, 5, 6, 7, 8, 9] \<and>
   map MAP (js ''ABCDEFGH'') = map Some [1, 2, 3, 4, 5, 6, 7, 8] \<and>
   map MAP (js ''JKLMN'') = map Some [1, 2, 3, 4, 5] \<and>
   map MAP (js ''PR'') = map Some [7, 9] \<and>
   map MAP (js ''STUVWXYZ'') = map Some [2, 3, 4, 5, 6, 7, 8, 9] \<and>
   map MAP (js ''IOQ'') = [None, None, None] \<and>
   map MAP (js ''-_., abc'') = [None, None, None, None, None, None, None, None]"
proof -
  have d: "dom MAP = {c. VIN_REGEX_class c}"
    by (auto simp add: MAP_dom)
  have keys: "dom MAP = set (map (\<lambda>(k, n). cu_of k) MAP_entries)"
    unfolding MAP_def [abs_def] by (simp add: dom_map_of_conv_image_fst image_image case_prod_beta)
  have c: "card (dom MAP) = 33"
    unfolding keys by (simp add: MAP_entries_def cu_of_def)
  have r: "ran MAP \<subseteq> {0..9}"
    using MAP_le9 by (auto simp add: ran_def)
  have rest: "map MAP (js ''0123456789'') = map Some [0, 1, 2, 3, 4, 5, 6, 7, 8, 9] \<and>
   map MAP (js ''ABCDEFGH'') = map Some [1, 2, 3, 4, 5, 6, 7, 8] \<and>
   map MAP (js ''JKLMN'') = map Some [1, 2, 3, 4, 5] \<and>
   map MAP (js ''PR'') = map Some [7, 9] \<and>
   map MAP (js ''STUVWXYZ'') = map Some [2, 3, 4, 5, 6, 7, 8, 9] \<and>
   map MAP (js ''IOQ'') = [None, None, None] \<and>
   map MAP (js ''-_., abc'') = [None, None, None, None, None, None, None, None]"
    by (simp add: MAP_def MAP_entries_def js_def cu_of_def)
  show ?thesis using d c r rest by blast
qed

text \<open>
  C6, as the specification states it: \<open>computeCheckDigit\<close> fails whenever one of the 17
  characters has no entry in the table. The lowercase \<open>h\<close> has no entry, and the function
  returns \<open>3\<close> for the string below, since it uppercases its argument first.
\<close>

theorem computeCheckDigit_lowercase_counterexample:
  "char_at (js ''1hgcm82633a004352'') 1 = Some (cu_of CHR ''h'') \<and>
   MAP (cu_of CHR ''h'') = None \<and>
   computeCheckDigit (js ''1hgcm82633a004352'') = Inr (js ''3'')"
  by (simp add: eval_defs)

text \<open>
  C6, amended: \<open>computeCheckDigit\<close> uppercases its argument and removes nothing from it;
  whenever one of the first 17 positions of the uppercased string has no entry in the
  table (I, O, Q, a symbol such as a hyphen, or a position past the end), it fails at the
  first such position with an error that names the character and its 1-based position.
\<close>

theorem computeCheckDigit_untransliterable:
  assumes "k < 17"
    and "MAP_get (char_at (toUpperCase s) k) = None"
    and "\<forall>j<k. MAP_get (char_at (toUpperCase s) j) \<noteq> None"
  shows "computeCheckDigit s =
           Inl (Error (js ''Invalid character '' @ [cu_of (CHR 0x27)] @
                       template_char (char_at (toUpperCase s) k) @ [cu_of (CHR 0x27)] @
                       js '' at position '' @ String_of_nat (k + 1)))"
proof -
  have "check_digit_loop (toUpperCase s) 0 0 =
          Inl (Error (invalid_character_message (char_at (toUpperCase s) k) (k + 1)))"
    using assms by (intro check_digit_loop_fail) simp_all
  then show ?thesis
    by (simp add: computeCheckDigit_def invalid_character_message_def)
qed

theorem computeCheckDigit_untransliterable_witness:
  "(3::nat) < 17 \<and> char_at (toUpperCase (js ''1hg-cm82633a004352'')) 3 = Some (cu_of CHR ''-'') \<and>
   MAP_get (char_at (toUpperCase (js ''1hg-cm82633a004352'')) 3) = None \<and>
   computeCheckDigit (js ''1hg-cm82633a004352'') =
     Inl (Error (js ''Invalid character '' @ [cu_of (CHR 0x27)] @ js ''-'' @ [cu_of (CHR 0x27)] @
                 js '' at position 4''))"
proof -
  have u: "toUpperCase (js ''1hg-cm82633a004352'') = js ''1HG-CM82633A004352''"
    by (simp add: eval_defs)
  have h2: "MAP_get (char_at (toUpperCase (js ''1hg-cm82633a004352'')) 3) = None"
    unfolding u by (simp add: eval_defs)
  have h3: "\<forall>j<3. MAP_get (char_at (toUpperCase (js ''1hg-cm82633a004352'')) j) \<noteq> None"
    unfolding u by (simp add: eval_defs less_Suc_eq numeral_3_eq_3)
  have c: "char_at (toUpperCase (js ''1hg-cm82633a004352'')) 3 = Some (cu_of CHR ''-'')"
    unfolding u by (simp add: eval_defs)
  have s: "String_of_nat (3 + 1) = js ''4''"
    by (simp add: eval_defs)
  show ?thesis
    using computeCheckDigit_untransliterable [of 3 "js ''1hg-cm82633a004352''", OF _ h2 h3] h2 c s
    by (simp add: template_char_def js_def)
qed




text \<open>
  C8. \<open>assertVIN\<close> throws on exactly the inputs for which \<open>isValidVIN\<close> is false; its
  message then lists every recorded error code and the expected check digit; on success
  it returns the normalized string; and \<open>isValidVIN(x)\<close> is \<open>validateVIN(x).isValid\<close>.
\<close>

theorem assertVIN_isValidVIN:
  "\<exists>r. validateVIN x = Inr r \<and> isValidVIN x = Inr (isValid r) \<and>
       ((\<exists>e. assertVIN x = Inl e) \<longleftrightarrow> isValidVIN x = Inr False) \<and>
       (isValidVIN x = Inr False \<longrightarrow>
          (\<exists>msg. assertVIN x = Inl (Error msg) \<and>
             msg = js ''Invalid VIN: '' @ join (js '', '') (map code_name (errors r)) @
                   js '' (expected check digit: '' @ expectedCheckDigit r @ js '')'' \<and>
             (\<forall>c. c \<in> set (errors r) \<longrightarrow> (\<exists>p q. msg = p @ code_name c @ q)) \<and>
             (\<exists>p q. msg = p @ expectedCheckDigit r @ q))) \<and>
       (isValidVIN x = Inr True \<longrightarrow> assertVIN x = Inr (normalizeVIN x))"
proof -
  obtain r where r: "validateVIN x = Inr r" "vin r = normalizeVIN x"
    using validateVIN_unfold [of x] by simp
  define msg where "msg = js ''Invalid VIN: '' @ join (js '', '') (map code_name (errors r)) @
                   js '' (expected check digit: '' @ expectedCheckDigit r @ js '')''"
  have codes: "\<exists>p q. msg = p @ code_name c @ q" if "c \<in> set (errors r)" for c
  proof -
    have "code_name c \<in> set (map code_name (errors r))" using that by simp
    then obtain p q where "join (js '', '') (map code_name (errors r)) = p @ code_name c @ q"
      using join_contains by blast
    then have "msg = (js ''Invalid VIN: '' @ p) @ code_name c @
                     (q @ js '' (expected check digit: '' @ expectedCheckDigit r @ js '')'')"
      by (simp add: msg_def)
    then show ?thesis by blast
  qed
  have exp: "\<exists>p q. msg = p @ expectedCheckDigit r @ q"
  proof -
    have "msg = (js ''Invalid VIN: '' @ join (js '', '') (map code_name (errors r)) @
                 js '' (expected check digit: '') @ expectedCheckDigit r @ js '')''"
      by (simp add: msg_def)
    then show ?thesis by blast
  qed
  show ?thesis
    using r codes exp
    by (auto simp add: isValidVIN_def assertVIN_def msg_def Let_def)
qed

theorem assertVIN_isValidVIN_witness:
  "isValidVIN (js ''1HGCM82603A004352'') = Inr False \<and>
   assertVIN (js ''1HGCM82603A004352'') =
     Inl (Error (js ''Invalid VIN: INVALID_CHECK_DIGIT (expected check digit: 3)'')) \<and>
   isValidVIN (js '' 1hg-cm82633a004352 '') = Inr True \<and>
   assertVIN (js '' 1hg-cm82633a004352 '') = Inr (js ''1HGCM82633A004352'')"
proof -
  have v1: "validateVIN (js ''1HGCM82603A004352'') =
     Inr \<lparr>isValid = False, vin = js ''1HGCM82603A004352'', errors = [INVALID_CHECK_DIGIT],
          checkDigit = js ''0'', expectedCheckDigit = js ''3''\<rparr>"
    by (simp add: eval_defs)
  have v2: "validateVIN (js '' 1hg-cm82633a004352 '') =
     Inr \<lparr>isValid = True, vin = js ''1HGCM82633A004352'', errors = [],
          checkDigit = js ''3'', expectedCheckDigit = js ''3''\<rparr>"
    by (simp add: eval_defs)
  have n2: "normalizeVIN (js '' 1hg-cm82633a004352 '') = js ''1HGCM82633A004352''"
    by (simp add: eval_defs)
  have h1: "isValidVIN (js ''1HGCM82603A004352'') = Inr False"
    by (simp add: isValidVIN_def v1)
  have h2: "isValidVIN (js '' 1hg-cm82633a004352 '') = Inr True"
    by (simp add: isValidVIN_def v2)
  obtain r where r: "validateVIN (js ''1HGCM82603A004352'') = Inr r"
    and a1: "assertVIN (js ''1HGCM82603A004352'') =
      Inl (Error (js ''Invalid VIN: '' @ join (js '', '') (map code_name (errors r)) @
                   js '' (expected check digit: '' @ expectedCheckDigit r @ js '')''))"
    using h1 assertVIN_isValidVIN [of "js ''1HGCM82603A004352''"] by blast
  have "r = \<lparr>isValid = False, vin = js ''1HGCM82603A004352'', errors = [INVALID_CHECK_DIGIT],
          checkDigit = js ''0'', expectedCheckDigit = js ''3''\<rparr>"
    using r v1 by simp
  then have m1: "assertVIN (js ''1HGCM82603A004352'') =
     Inl (Error (js ''Invalid VIN: INVALID_CHECK_DIGIT (expected check digit: 3)''))"
    using a1 by (simp add: code_name_def js_def)
  have a2: "assertVIN (js '' 1hg-cm82633a004352 '') = Inr (js ''1HGCM82633A004352'')"
    using h2 assertVIN_isValidVIN [of "js '' 1hg-cm82633a004352 ''"] n2 by auto
  show ?thesis
    using h1 h2 m1 a2 by blast
qed

text \<open>
  C10, as stated: \<open>computeCheckDigit\<close> throws for every string shorter than 17 characters.
  The 16 characters below begin with U+00DF, whose uppercase form is \<open>SS\<close>; the uppercased
  string has 17 permitted characters and the function returns \<open>5\<close>.
\<close>

theorem computeCheckDigit_short_counterexample:
  "length (0xDF # js ''1HGCM82633A0043'') = 16 \<and>
   toUpperCase (0xDF # js ''1HGCM82633A0043'') = js ''SS1HGCM82633A0043'' \<and>
   computeCheckDigit (0xDF # js ''1HGCM82633A0043'') = Inr (js ''5'')"
  by (simp add: eval_defs upper_non_ascii_def upper_page_0000_def)

end
